theory Spec2Isabelle
  imports Main "HOL-Library.Word"
begin

unbundle bit_operations_syntax

section \<open>Bytes and the SHA-1 digest behind \<open>crypto.createHash("sha1")\<close>\<close>

text \<open>
  File contents are byte sequences. The digest of \<open>getFileHash\<close> is computed by the
  SHA-1 function of FIPS 180-4 on 32-bit words and printed as lower-case hexadecimal,
  most significant nibble first, as \<open>hash.digest("hex")\<close> does.
\<close>

type_synonym byte = "8 word"
type_synonym u32 = "32 word"

definition rotl32 :: "nat \<Rightarrow> u32 \<Rightarrow> u32" where
  "rotl32 n x = push_bit n x OR drop_bit (32 - n) x"

definition sha1_f :: "nat \<Rightarrow> u32 \<Rightarrow> u32 \<Rightarrow> u32 \<Rightarrow> u32" where
  "sha1_f t b c d =
     (if t < 20 then (b AND c) OR (NOT b AND d)
      else if t < 40 then b XOR c XOR d
      else if t < 60 then (b AND c) OR (b AND d) OR (c AND d)
      else b XOR c XOR d)"

definition sha1_k :: "nat \<Rightarrow> u32" where
  "sha1_k t =
     (if t < 20 then 0x5A827999
      else if t < 40 then 0x6ED9EBA1
      else if t < 60 then 0x8F1BBCDC
      else 0xCA62C1D6)"

type_synonym sha1_state = "u32 \<times> u32 \<times> u32 \<times> u32 \<times> u32"

text \<open>
  The eighty rounds of one block. The message schedule is kept as a window of the last
  sixteen words: round \<open>t\<close> consumes the head of the window and appends word \<open>t + 16\<close>.
\<close>

function sha1_rounds :: "nat \<Rightarrow> u32 list \<Rightarrow> sha1_state \<Rightarrow> sha1_state" where
  "sha1_rounds t w (a, b, c, d, e) =
     (if 80 \<le> t then (a, b, c, d, e)
      else sha1_rounds (t + 1)
        (tl w @ [rotl32 1 (w ! 13 XOR w ! 8 XOR w ! 2 XOR w ! 0)])
        (rotl32 5 a + sha1_f t b c d + e + sha1_k t + w ! 0, a, rotl32 30 b, c, d))"
  by pat_completeness auto
termination
  by (relation "measure (\<lambda>(t, w, s). 80 - t)") auto

declare sha1_rounds.simps [simp del]

fun be32s :: "byte list \<Rightarrow> u32 list" where
  "be32s (b0 # b1 # b2 # b3 # bs) =
     (push_bit 24 (ucast b0) OR push_bit 16 (ucast b1) OR push_bit 8 (ucast b2) OR ucast b3)
       # be32s bs"
| "be32s _ = []"

definition sha1_block :: "sha1_state \<Rightarrow> byte list \<Rightarrow> sha1_state" where
  "sha1_block h blk =
     (case h of (h0, h1, h2, h3, h4) \<Rightarrow>
        (case sha1_rounds 0 (be32s blk) h of (a, b, c, d, e) \<Rightarrow>
           (h0 + a, h1 + b, h2 + c, h3 + d, h4 + e)))"

definition be64 :: "64 word \<Rightarrow> byte list" where
  "be64 n = map (\<lambda>i. ucast (drop_bit (8 * i) n)) [7, 6, 5, 4, 3, 2, 1, 0]"

text \<open>
  Padding: the byte \<open>0x80\<close>, zero bytes up to 56 modulo 64, and the length of the
  message in bits as a 64-bit big-endian number.
\<close>

definition sha1_pad :: "byte list \<Rightarrow> byte list" where
  "sha1_pad m =
     m @ [0x80] @ replicate ((119 - length m mod 64) mod 64) 0 @ be64 (of_nat (8 * length m))"

function sha1_blocks :: "sha1_state \<Rightarrow> byte list \<Rightarrow> sha1_state" where
  "sha1_blocks h m =
     (if m = [] then h else sha1_blocks (sha1_block h (take 64 m)) (drop 64 m))"
  by pat_completeness auto
termination
  by (relation "measure (\<lambda>(h, m). length m)") auto

declare sha1_blocks.simps [simp del]

definition sha1_init :: sha1_state where
  "sha1_init = (0x67452301, 0xEFCDAB89, 0x98BADCFE, 0x10325476, 0xC3D2E1F0)"

definition hex_alphabet :: "char set" where
  "hex_alphabet = set ''0123456789abcdef''"

definition hex_digit :: "nat \<Rightarrow> char" where
  "hex_digit n = ''0123456789abcdef'' ! (n mod 16)"

definition hex32 :: "u32 \<Rightarrow> string" where
  "hex32 x = map (\<lambda>i. hex_digit (unat (drop_bit (4 * i) x))) [7, 6, 5, 4, 3, 2, 1, 0]"

definition sha1_hex :: "byte list \<Rightarrow> string" where
  "sha1_hex m =
     (case sha1_blocks sha1_init (sha1_pad m) of (h0, h1, h2, h3, h4) \<Rightarrow>
        hex32 h0 @ hex32 h1 @ hex32 h2 @ hex32 h3 @ hex32 h4)"

text \<open>The bytes of an ASCII string, for writing down file contents.\<close>

definition bytes_of :: "string \<Rightarrow> byte list" where
  "bytes_of s = map (\<lambda>c. of_nat (of_char c)) s"

section \<open>\<open>Date.prototype.toUTCString\<close>\<close>

text \<open>
  A \<open>Date\<close> holds a time value: milliseconds since 1 January 1970 UTC. The functions
  below are the abstract operations of ECMA-262 (section "Date Objects") on integers;
  \<open>div\<close> and \<open>mod\<close> on \<open>int\<close> are the floor division and the non-negative
  remainder that the standard uses.
\<close>

definition msPerDay :: int where
  "msPerDay = 86400000"

definition Day :: "int \<Rightarrow> int" where
  "Day t = t div msPerDay"

definition TimeWithinDay :: "int \<Rightarrow> int" where
  "TimeWithinDay t = t mod msPerDay"

definition DayFromYear :: "int \<Rightarrow> int" where
  "DayFromYear y =
     365 * (y - 1970) + (y - 1969) div 4 - (y - 1901) div 100 + (y - 1601) div 400"

text \<open>
  The year of a day number: the largest \<open>y\<close> with \<open>DayFromYear y \<le> d\<close>, computed
  from the mean length of a Gregorian year (146097 days in 400 years) and corrected
  by at most one year.
\<close>

definition YearFromDay :: "int \<Rightarrow> int" where
  "YearFromDay d =
     (let y = 1970 + (400 * d) div 146097
      in if d < DayFromYear y then y - 1
         else if DayFromYear (y + 1) \<le> d then y + 1
         else y)"

definition YearFromTime :: "int \<Rightarrow> int" where
  "YearFromTime t = YearFromDay (Day t)"

definition InLeapYear :: "int \<Rightarrow> int" where
  "InLeapYear t =
     (let y = YearFromTime t
      in if y mod 4 = 0 \<and> (y mod 100 \<noteq> 0 \<or> y mod 400 = 0) then 1 else 0)"

definition DayWithinYear :: "int \<Rightarrow> int" where
  "DayWithinYear t = Day t - DayFromYear (YearFromTime t)"

definition MonthFromTime :: "int \<Rightarrow> nat" where
  "MonthFromTime t =
     (let d = DayWithinYear t; l = InLeapYear t
      in if d < 31 then 0
         else if d < 59 + l then 1
         else if d < 90 + l then 2
         else if d < 120 + l then 3
         else if d < 151 + l then 4
         else if d < 181 + l then 5
         else if d < 212 + l then 6
         else if d < 243 + l then 7
         else if d < 273 + l then 8
         else if d < 304 + l then 9
         else if d < 334 + l then 10
         else 11)"

definition DateFromTime :: "int \<Rightarrow> int" where
  "DateFromTime t =
     (let d = DayWithinYear t; l = InLeapYear t; m = MonthFromTime t
      in if m = 0 then d + 1
         else if m = 1 then d - 30
         else if m = 2 then d - 58 - l
         else if m = 3 then d - 89 - l
         else if m = 4 then d - 119 - l
         else if m = 5 then d - 150 - l
         else if m = 6 then d - 180 - l
         else if m = 7 then d - 211 - l
         else if m = 8 then d - 242 - l
         else if m = 9 then d - 272 - l
         else if m = 10 then d - 303 - l
         else d - 333 - l)"

definition WeekDay :: "int \<Rightarrow> nat" where
  "WeekDay t = nat ((Day t + 4) mod 7)"

definition HourFromTime :: "int \<Rightarrow> int" where
  "HourFromTime t = (t div 3600000) mod 24"

definition MinFromTime :: "int \<Rightarrow> int" where
  "MinFromTime t = (t div 60000) mod 60"

definition SecFromTime :: "int \<Rightarrow> int" where
  "SecFromTime t = (t div 1000) mod 60"

definition weekday_names :: "string list" where
  "weekday_names = [''Sun'', ''Mon'', ''Tue'', ''Wed'', ''Thu'', ''Fri'', ''Sat'']"

definition month_names :: "string list" where
  "month_names =
     [''Jan'', ''Feb'', ''Mar'', ''Apr'', ''May'', ''Jun'',
      ''Jul'', ''Aug'', ''Sep'', ''Oct'', ''Nov'', ''Dec'']"

definition dec_digit :: "nat \<Rightarrow> char" where
  "dec_digit n = ''0123456789'' ! (n mod 10)"

function decimal :: "nat \<Rightarrow> string" where
  "decimal n = (if n < 10 then [dec_digit n] else decimal (n div 10) @ [dec_digit n])"
  by pat_completeness auto
termination
  by (relation "measure id") auto

declare decimal.simps [simp del]

text \<open>\<open>ToZeroPaddedDecimalString(n, minLength)\<close>.\<close>

definition zero_padded :: "int \<Rightarrow> nat \<Rightarrow> string" where
  "zero_padded n minLength =
     (let s = decimal (nat n) in replicate (minLength - length s) (CHR ''0'') @ s)"

definition TimeString :: "int \<Rightarrow> string" where
  "TimeString t =
     zero_padded (HourFromTime t) 2 @ '':'' @ zero_padded (MinFromTime t) 2 @ '':'' @
     zero_padded (SecFromTime t) 2 @ '' GMT''"

text \<open>
  A time value of more than 8640000000000000 ms in absolute value is not a date
  (\<open>TimeClip\<close> gives \<open>NaN\<close>), and \<open>toUTCString\<close> prints \<open>Invalid Date\<close> for it.
\<close>

definition toUTCString :: "int \<Rightarrow> string" where
  "toUTCString tv =
     (if \<bar>tv\<bar> > 8640000000000000 then ''Invalid Date''
      else
        let yv = YearFromTime tv;
            yearSign = (if 0 \<le> yv then [] else ''-'')
        in weekday_names ! WeekDay tv @ '', '' @ zero_padded (DateFromTime tv) 2 @ '' '' @
           month_names ! MonthFromTime tv @ '' '' @ yearSign @ zero_padded \<bar>yv\<bar> 4 @ '' '' @
           TimeString tv)"

section \<open>Storage\<close>

text \<open>
  The file system is outside the program. A file has its bytes, the two time stamps
  that \<open>fs.statSync\<close> reports (time values, in milliseconds) and possibly a fault:
  \<open>Some (n, e)\<close> means that reading the body fails with error \<open>e\<close> once \<open>n\<close> bytes
  have been delivered. A path that maps to no file does not exist.
\<close>

datatype errno = ENOENT | EACCES | EIO | EISDIR

record fnode =
  content :: "byte list"
  ctimeMs :: int
  mtimeMs :: int
  fault :: "(nat \<times> errno) option"

type_synonym disk = "string \<rightharpoonup> fnode"

datatype access = Stat string | ReadFile string | ReadStream string

text \<open>
  A handler runs across several \<open>await\<close>s, and the files may change in between. The
  state of a request therefore holds the storage as each access finds it
  (\<open>disk_at s k\<close> is what the access number \<open>k\<close> of the request sees, counting from 0),
  and the accesses made so far.
\<close>

record fs =
  disk_at :: "nat \<Rightarrow> disk"
  accesses :: "access list"

definition current_disk :: "fs \<Rightarrow> disk" where
  "current_disk s = disk_at s (length (accesses s))"

definition record_access :: "access \<Rightarrow> fs \<Rightarrow> fs" where
  "record_access a s = s\<lparr>accesses := accesses s @ [a]\<rparr>"

text \<open>
  Files are named by their path from the working directory of the process.
  \<open>path.resolve\<close> and the file system calls themselves take \<open>./assets/x\<close> and
  \<open>assets/x\<close> to the same file; the accesses are recorded under the resolved name.
\<close>

function path_resolve :: "string \<Rightarrow> string" where
  "path_resolve p = (if take 2 p = ''./'' then path_resolve (drop 2 p) else p)"
  by pat_completeness auto
termination
proof (relation "measure length")
  show "wf (measure length)" by simp
next
  fix p :: string
  assume "take 2 p = ''./''"
  then have "p \<noteq> []" by auto
  then show "(drop 2 p, p) \<in> measure length" by simp
qed

declare path_resolve.simps [simp del]

record stats =
  st_ctime :: int
  st_mtime :: int
  st_size :: nat

definition statSync :: "string \<Rightarrow> fs \<Rightarrow> (errno + stats) \<times> fs" where
  "statSync p s =
     (case current_disk s (path_resolve p) of
        None \<Rightarrow> Inl ENOENT
      | Some f \<Rightarrow>
          Inr \<lparr>st_ctime = ctimeMs f, st_mtime = mtimeMs f, st_size = length (content f)\<rparr>,
      record_access (Stat (path_resolve p)) s)"

text \<open>\<open>fs.readFile\<close>: the whole file or the error.\<close>

definition readFile :: "string \<Rightarrow> fs \<Rightarrow> (errno + byte list) \<times> fs" where
  "readFile p s =
     (case current_disk s (path_resolve p) of
        None \<Rightarrow> Inl ENOENT
      | Some f \<Rightarrow> (case fault f of Some (n, e) \<Rightarrow> Inl e | None \<Rightarrow> Inr (content f)),
      record_access (ReadFile (path_resolve p)) s)"

text \<open>
  A read stream emits \<open>data\<close> events with chunks of at most \<open>highWaterMark\<close> bytes and
  then either \<open>end\<close> or \<open>error\<close>.
\<close>

datatype stream = Data "byte list" stream | End | Error errno

definition highWaterMark :: nat where
  "highWaterMark = 65536"

function chunks :: "nat \<Rightarrow> 'a list \<Rightarrow> 'a list list" where
  "chunks n xs = (if n = 0 \<or> xs = [] then [] else take n xs # chunks n (drop n xs))"
  by pat_completeness auto
termination
  by (relation "measure (\<lambda>(n, xs). length xs)") auto

declare chunks.simps [simp del]

fun emit :: "byte list list \<Rightarrow> stream \<Rightarrow> stream" where
  "emit [] fin = fin"
| "emit (c # cs) fin = Data c (emit cs fin)"

definition createReadStream :: "string \<Rightarrow> fs \<Rightarrow> stream \<times> fs" where
  "createReadStream p s =
     (case current_disk s (path_resolve p) of
        None \<Rightarrow> Error ENOENT
      | Some f \<Rightarrow>
          (case fault f of
             None \<Rightarrow> emit (chunks highWaterMark (content f)) End
           | Some (n, e) \<Rightarrow> emit (chunks highWaterMark (take n (content f))) (Error e)),
      record_access (ReadStream (path_resolve p)) s)"

section \<open>The helpers of \<open>app.js\<close>\<close>

text \<open>
  \<open>asyncReadFile\<close>: the promise resolves with the data or rejects with the error
  (\<open>Inl\<close>).
\<close>

definition asyncReadFile :: "string \<Rightarrow> fs \<Rightarrow> (errno + byte list) \<times> fs" where
  "asyncReadFile filePath s = readFile (path_resolve filePath) s"

text \<open>
  The \<open>Hash\<close> object of \<open>crypto\<close> is modelled by the bytes it has absorbed:
  \<open>update\<close> appends a chunk and \<open>digest("hex")\<close> is the SHA-1 of all of them.
\<close>

type_synonym hash = "byte list"

definition createHash :: hash where
  "createHash = []"

definition hash_update :: "hash \<Rightarrow> byte list \<Rightarrow> hash" where
  "hash_update h chunk = h @ chunk"

definition hash_digest :: "hash \<Rightarrow> string" where
  "hash_digest h = sha1_hex h"

text \<open>
  The three listeners that \<open>getFileHash\<close> puts on its stream: \<open>error\<close> rejects,
  \<open>data\<close> updates the hash, \<open>end\<close> resolves with the digest.
\<close>

fun getFileHash_listeners :: "hash \<Rightarrow> stream \<Rightarrow> errno + string" where
  "getFileHash_listeners h (Error err) = Inl err"
| "getFileHash_listeners h (Data chunk rest) = getFileHash_listeners (hash_update h chunk) rest"
| "getFileHash_listeners h End = Inr (hash_digest h)"

definition getFileHash :: "string \<Rightarrow> fs \<Rightarrow> (errno + string) \<times> fs" where
  "getFileHash filePath s =
     (case createReadStream (path_resolve filePath) s of
        (stream, s') \<Rightarrow> (getFileHash_listeners createHash stream, s'))"

section \<open>Requests and responses\<close>

text \<open>
  \<open>req.headers\<close> maps lower-case header names to their values; a header that the
  request does not carry is \<open>undefined\<close> (\<open>None\<close>). A response starts with status 200,
  no headers and no body. \<open>setHeader\<close> stores a header under its lower-case name.
\<close>

record request =
  headers :: "string \<rightharpoonup> string"

record response =
  statusCode :: nat
  res_headers :: "string \<rightharpoonup> string"
  body :: "byte list"
  finished :: bool

definition new_response :: response where
  "new_response = \<lparr>statusCode = 200, res_headers = Map.empty, body = [], finished = False\<rparr>"

definition lower_char :: "char \<Rightarrow> char" where
  "lower_char c =
     (case map_of (zip ''ABCDEFGHIJKLMNOPQRSTUVWXYZ'' ''abcdefghijklmnopqrstuvwxyz'') c of
        None \<Rightarrow> c
      | Some l \<Rightarrow> l)"

definition toLowerCase :: "string \<Rightarrow> string" where
  "toLowerCase s = map lower_char s"

definition setHeader :: "string \<Rightarrow> string \<Rightarrow> response \<Rightarrow> response" where
  "setHeader name v res = res\<lparr>res_headers := (res_headers res)(toLowerCase name \<mapsto> v)\<rparr>"

definition getHeader :: "response \<Rightarrow> string \<Rightarrow> string option" where
  "getHeader res name = res_headers res (toLowerCase name)"

definition res_write :: "byte list \<Rightarrow> response \<Rightarrow> response" where
  "res_write chunk res = res\<lparr>body := body res @ chunk\<rparr>"

definition res_end :: "byte list \<Rightarrow> response \<Rightarrow> response" where
  "res_end data res = res\<lparr>body := body res @ data, finished := True\<rparr>"

text \<open>
  What a handler does with a request: it ends the response (\<open>Sent\<close>); or its promise
  rejects with an error while the response is still open (\<open>Rejected\<close>; the handlers
  catch nothing, and what the client then gets is decided by the framework, not by
  \<open>app.js\<close>); or a stream without an \<open>error\<close> listener emits \<open>error\<close> (\<open>Uncaught\<close>),
  with the response as far as it has been written.
\<close>

datatype outcome =
    Sent response
  | Rejected errno response
  | Uncaught errno response

text \<open>\<open>imgStream.pipe(res)\<close>: every chunk is written, \<open>end\<close> ends the response.\<close>

fun pipe :: "stream \<Rightarrow> response \<Rightarrow> outcome" where
  "pipe (Data chunk rest) res = pipe rest (res_write chunk res)"
| "pipe End res = Sent (res_end [] res)"
| "pipe (Error err) res = Uncaught err res"

section \<open>The routes\<close>

text \<open>
  Each handler takes the request and the state of the storage and returns what became
  of the response together with the new state. The line that each handler writes to
  the console is left out.
\<close>

definition index_handler :: "request \<Rightarrow> fs \<Rightarrow> outcome \<times> fs" where
  "index_handler req s =
     (case asyncReadFile ''./assets/index.html'' s of
        (Inl err, s1) \<Rightarrow> (Rejected err new_response, s1)
      | (Inr htmlContents, s1) \<Rightarrow>
          (Sent (res_end htmlContents (setHeader ''Content-Type'' ''text/html'' new_response)), s1))"

text \<open>Forced cache: \<open>/test.css\<close>.\<close>

definition test_css_handler :: "request \<Rightarrow> fs \<Rightarrow> outcome \<times> fs" where
  "test_css_handler req s =
     (case asyncReadFile ''./assets/test.css'' s of
        (Inl err, s1) \<Rightarrow> (Rejected err new_response, s1)
      | (Inr cssContents, s1) \<Rightarrow>
          (Sent (res_end cssContents
             (setHeader ''Cache-Control'' ''public,max-age=30''
               (setHeader ''Content-Type'' ''text/css'' new_response))), s1))"

text \<open>Negotiated cache by time stamp: \<open>/test.js\<close>.\<close>

definition test_js_handler :: "request \<Rightarrow> fs \<Rightarrow> outcome \<times> fs" where
  "test_js_handler req s =
     (case statSync ''./assets/test.js'' s of
        (Inl err, s1) \<Rightarrow> (Rejected err new_response, s1)
      | (Inr stat, s1) \<Rightarrow>
          let ctime = toUTCString (st_ctime stat);
              res = setHeader ''Last-Modified'' ctime
                      (setHeader ''Content-Type'' ''text/javascript'' new_response);
              ifModefiedSince = headers req ''if-modified-since''
          in if ifModefiedSince = Some ctime
             then (Sent (res_end [] (res\<lparr>statusCode := 304\<rparr>)), s1)
             else
               (case asyncReadFile ''./assets/test.js'' s1 of
                  (Inl err, s2) \<Rightarrow> (Rejected err res, s2)
                | (Inr jsContents, s2) \<Rightarrow> (Sent (res_end jsContents res), s2)))"

text \<open>Negotiated cache by content hash: \<open>/cache_policy.jpeg\<close>.\<close>

definition cache_policy_handler :: "request \<Rightarrow> fs \<Rightarrow> outcome \<times> fs" where
  "cache_policy_handler req s =
     (let res0 = setHeader ''Content-Type'' ''image/jpeg'' new_response;
          filePath = ''./assets/cache_policy.jpeg''
      in case getFileHash filePath s of
           (Inl err, s1) \<Rightarrow> (Rejected err res0, s1)
         | (Inr fileHash, s1) \<Rightarrow>
             let ifNoneMatch = headers req ''if-none-match'';
                 res = setHeader ''Cache-Control'' ''public, max-age=10''
                         (setHeader ''Etag'' fileHash res0)
             in if ifNoneMatch = Some fileHash
                then (Sent (res_end [] (res\<lparr>statusCode := 304\<rparr>)), s1)
                else
                  (case createReadStream filePath s1 of
                     (imgStream, s2) \<Rightarrow> (pipe imgStream res, s2)))"

section \<open>Vocabulary of the specification\<close>

text \<open>
  The specification speaks of two validation outcomes. On the wire \<open>Unchanged\<close> is a
  finished response with status 304 and an empty body, and \<open>Fresh\<close> is a finished
  response with status 200 that carries the given bytes.
\<close>

definition Unchanged :: "outcome \<Rightarrow> bool" where
  "Unchanged out =
     (case out of Sent r \<Rightarrow> statusCode r = 304 \<and> body r = [] \<and> finished r | _ \<Rightarrow> False)"

definition Fresh :: "byte list \<Rightarrow> outcome \<Rightarrow> bool" where
  "Fresh b out =
     (case out of Sent r \<Rightarrow> statusCode r = 200 \<and> body r = b \<and> finished r | _ \<Rightarrow> False)"

text \<open>The status that the handler itself has put on a response it ended.\<close>

definition status_sent :: "outcome \<Rightarrow> nat option" where
  "status_sent out = (case out of Sent r \<Rightarrow> Some (statusCode r) | _ \<Rightarrow> None)"

text \<open>A header of the response, whatever became of it.\<close>

definition response_of :: "outcome \<Rightarrow> response" where
  "response_of out = (case out of Sent r \<Rightarrow> r | Rejected e r \<Rightarrow> r | Uncaught e r \<Rightarrow> r)"

definition failed :: "outcome \<Rightarrow> bool" where
  "failed out = (case out of Sent r \<Rightarrow> False | _ \<Rightarrow> True)"

text \<open>
  Whether an access succeeds on a disk, and whether all accesses that a request has
  made succeeded on the disks they found.
\<close>

definition readable :: "disk \<Rightarrow> string \<Rightarrow> bool" where
  "readable d p = (case d p of None \<Rightarrow> False | Some f \<Rightarrow> fault f = None)"

fun access_ok :: "disk \<Rightarrow> access \<Rightarrow> bool" where
  "access_ok d (Stat p) = (d p \<noteq> None)"
| "access_ok d (ReadFile p) = readable d p"
| "access_ok d (ReadStream p) = readable d p"

definition all_accesses_ok :: "fs \<Rightarrow> bool" where
  "all_accesses_ok s =
     list_all (\<lambda>k. access_ok (disk_at s k) (accesses s ! k)) [0..<length (accesses s)]"

text \<open>The number of times the body of a file has been read.\<close>

fun reads_body :: "string \<Rightarrow> access \<Rightarrow> bool" where
  "reads_body p (Stat q) = False"
| "reads_body p (ReadFile q) = (p = q)"
| "reads_body p (ReadStream q) = (p = q)"

definition body_reads :: "string \<Rightarrow> fs \<Rightarrow> nat" where
  "body_reads p s = length (filter (reads_body p) (accesses s))"

text \<open>
  Reading a decimal number back from its digits, to show that the formatting of a date
  loses nothing but the milliseconds.
\<close>

definition digits :: "char set" where
  "digits = set ''0123456789''"

definition digit_val :: "char \<Rightarrow> nat" where
  "digit_val c =
     (case map_of (zip ''0123456789'' [0, 1, 2, 3, 4, 5, 6, 7, 8, 9]) c of
        None \<Rightarrow> 0
      | Some v \<Rightarrow> v)"

definition decimal_val :: "string \<Rightarrow> nat" where
  "decimal_val s = foldl (\<lambda>a c. 10 * a + digit_val c) 0 s"

section \<open>Example storage\<close>

definition ex_js :: fnode where
  "ex_js = \<lparr>content = bytes_of ''console.log(1)'', ctimeMs = 1652266130000,
            mtimeMs = 1652266130000, fault = None\<rparr>"

definition ex_css :: fnode where
  "ex_css = \<lparr>content = bytes_of ''body{color:red}'', ctimeMs = 1652266130000,
             mtimeMs = 1652266130000, fault = None\<rparr>"

definition ex_jpeg :: fnode where
  "ex_jpeg = \<lparr>content = [0xFF, 0xD8, 0xFF, 0xE0], ctimeMs = 1652266130000,
              mtimeMs = 1652266130000, fault = None\<rparr>"

definition ex_disk :: disk where
  "ex_disk = [''assets/test.js'' \<mapsto> ex_js, ''assets/test.css'' \<mapsto> ex_css,
              ''assets/cache_policy.jpeg'' \<mapsto> ex_jpeg]"

definition ex_fs :: fs where
  "ex_fs = \<lparr>disk_at = (\<lambda>k. ex_disk), accesses = []\<rparr>"

text \<open>The picture is replaced while a request is being served.\<close>

definition ex_jpeg_v2 :: fnode where
  "ex_jpeg_v2 = \<lparr>content = [0xFF, 0xD8, 0xFF, 0xE1, 0x00], ctimeMs = 1652266131000,
                 mtimeMs = 1652266131000, fault = None\<rparr>"

definition replaced_fs :: fs where
  "replaced_fs =
     \<lparr>disk_at = (\<lambda>k. if k = 0 then ex_disk
                       else ex_disk(''assets/cache_policy.jpeg'' \<mapsto> ex_jpeg_v2)),
      accesses = []\<rparr>"

text \<open>No files at all, and a disk on which reading the files fails after two bytes.\<close>

definition missing_fs :: fs where
  "missing_fs = \<lparr>disk_at = (\<lambda>k. Map.empty), accesses = []\<rparr>"

definition faulty_fs :: fs where
  "faulty_fs =
     \<lparr>disk_at = (\<lambda>k. [''assets/test.js'' \<mapsto> ex_js\<lparr>fault := Some (2, EIO)\<rparr>,
                      ''assets/cache_policy.jpeg'' \<mapsto> ex_jpeg\<lparr>fault := Some (2, EIO)\<rparr>]),
      accesses = []\<rparr>"

text \<open>
  The files are deleted, or become unreadable after two bytes, between the first and the
  second access of a request.
\<close>

definition deleted_fs :: fs where
  "deleted_fs = \<lparr>disk_at = (\<lambda>k. if k = 0 then ex_disk else Map.empty), accesses = []\<rparr>"

definition second_read_fails_fs :: fs where
  "second_read_fails_fs =
     \<lparr>disk_at = (\<lambda>k. if k = 0 then ex_disk
                       else [''assets/test.js'' \<mapsto> ex_js\<lparr>fault := Some (2, EIO)\<rparr>,
                             ''assets/cache_policy.jpeg'' \<mapsto> ex_jpeg\<lparr>fault := Some (2, EIO)\<rparr>]),
      accesses = []\<rparr>"

text \<open>A request that finds \<open>test.js\<close> in the given state throughout.\<close>

definition js_fs :: "fnode \<Rightarrow> fs" where
  "js_fs f = \<lparr>disk_at = (\<lambda>k. [''assets/test.js'' \<mapsto> f]), accesses = []\<rparr>"

definition no_headers :: request where
  "no_headers = \<lparr>headers = Map.empty\<rparr>"

section \<open>Auxiliary facts\<close>

subsection \<open>Paths, streams and digests\<close>

lemma path_resolve_idem: "path_resolve (path_resolve p) = path_resolve p"
proof (induction p rule: path_resolve.induct)
  case (1 p)
  show ?case
  proof (cases "take 2 p = ''./''")
    case True
    then have "path_resolve p = path_resolve (drop 2 p)"
      by (subst path_resolve.simps) simp
    with 1 True show ?thesis by simp
  next
    case False
    then have "path_resolve p = p"
      by (subst path_resolve.simps) simp
    then show ?thesis by simp
  qed
qed

lemma path_resolve_test_js: "path_resolve ''./assets/test.js'' = ''assets/test.js''"
  by (simp add: path_resolve.simps)

lemma path_resolve_jpeg:
  "path_resolve ''./assets/cache_policy.jpeg'' = ''assets/cache_policy.jpeg''"
  by (simp add: path_resolve.simps)

lemma path_resolve_test_css: "path_resolve ''./assets/test.css'' = ''assets/test.css''"
  by (simp add: path_resolve.simps)

lemma concat_chunks: "0 < n \<Longrightarrow> concat (chunks n xs) = xs"
proof (induction n xs rule: chunks.induct)
  case (1 n xs)
  show ?case
  proof (cases "xs = []")
    case True
    then show ?thesis by (simp add: chunks.simps)
  next
    case False
    with 1 have "concat (chunks n (drop n xs)) = drop n xs" by simp
    with False 1 show ?thesis by (simp add: chunks.simps [of n xs])
  qed
qed

lemma listeners_emit_End:
  "getFileHash_listeners h (emit cs End) = Inr (sha1_hex (h @ concat cs))"
  by (induction cs arbitrary: h) (simp_all add: hash_update_def hash_digest_def)

lemma listeners_emit_Error:
  "getFileHash_listeners h (emit cs (Error e)) = Inl e"
  by (induction cs arbitrary: h) simp_all

lemma pipe_emit_End:
  "pipe (emit cs End) res = Sent (res_end [] (res\<lparr>body := body res @ concat cs\<rparr>))"
  by (induction cs arbitrary: res) (simp_all add: res_write_def res_end_def)

lemma pipe_emit_Error:
  "pipe (emit cs (Error e)) res = Uncaught e (res\<lparr>body := body res @ concat cs\<rparr>)"
  by (induction cs arbitrary: res) (simp_all add: res_write_def)

lemma toLowerCase_names:
  "toLowerCase ''Content-Type'' = ''content-type''"
  "toLowerCase ''Last-Modified'' = ''last-modified''"
  "toLowerCase ''Cache-Control'' = ''cache-control''"
  "toLowerCase ''Etag'' = ''etag''"
  "toLowerCase ''ETag'' = ''etag''"
  by (simp_all add: toLowerCase_def lower_char_def)

lemma length_hex32: "length (hex32 x) = 8"
  by (simp add: hex32_def)

lemma hex_digit_in: "hex_digit n \<in> hex_alphabet"
proof -
  have "n mod 16 < length ''0123456789abcdef''" by simp
  then show ?thesis unfolding hex_digit_def hex_alphabet_def by (rule nth_mem)
qed

lemma set_hex32: "set (hex32 x) \<subseteq> hex_alphabet"
  by (auto simp: hex32_def hex_digit_in)

lemma length_sha1_hex: "length (sha1_hex m) = 40"
  by (simp add: sha1_hex_def length_hex32 split: prod.splits)

lemma set_sha1_hex: "set (sha1_hex m) \<subseteq> hex_alphabet"
proof -
  obtain h0 h1 h2 h3 h4 where "sha1_blocks sha1_init (sha1_pad m) = (h0, h1, h2, h3, h4)"
    by (cases "sha1_blocks sha1_init (sha1_pad m)") auto
  then show ?thesis
    using set_hex32 [of h0] set_hex32 [of h1] set_hex32 [of h2] set_hex32 [of h3]
      set_hex32 [of h4]
    by (simp add: sha1_hex_def)
qed

text \<open>Some dates, among them the one in the comment of the route \<open>/test.js\<close>.\<close>

lemmas date_defs = YearFromTime_def YearFromDay_def Day_def msPerDay_def
  DayFromYear_def WeekDay_def DateFromTime_def MonthFromTime_def DayWithinYear_def
  InLeapYear_def TimeString_def HourFromTime_def MinFromTime_def SecFromTime_def

lemma toUTCString_example: "toUTCString 1652266130000 = ''Wed, 11 May 2022 10:48:50 GMT''"
  apply (simp add: toUTCString_def date_defs)
  apply (simp add: zero_padded_def weekday_names_def month_names_def)
  apply (simp add: decimal.simps)
  apply (simp add: dec_digit_def)
  done

lemma toUTCString_epoch: "toUTCString 0 = ''Thu, 01 Jan 1970 00:00:00 GMT''"
  apply (simp add: toUTCString_def date_defs)
  apply (simp add: zero_padded_def weekday_names_def month_names_def)
  apply (simp add: decimal.simps)
  apply (simp add: dec_digit_def)
  done

lemma toUTCString_before_epoch: "toUTCString (- 1) = ''Wed, 31 Dec 1969 23:59:59 GMT''"
  apply (simp add: toUTCString_def date_defs)
  apply (simp add: zero_padded_def weekday_names_def month_names_def)
  apply (simp add: decimal.simps)
  apply (simp add: dec_digit_def)
  done

lemma toUTCString_leap_day: "toUTCString 951782400000 = ''Tue, 29 Feb 2000 00:00:00 GMT''"
  apply (simp add: toUTCString_def date_defs)
  apply (simp add: zero_padded_def weekday_names_def month_names_def)
  apply (simp add: decimal.simps)
  apply (simp add: dec_digit_def)
  done

lemma toUTCString_last: "toUTCString 8640000000000000 = ''Sat, 13 Sep 275760 00:00:00 GMT''"
  apply (simp add: toUTCString_def date_defs)
  apply (simp add: zero_padded_def weekday_names_def month_names_def)
  apply (simp add: decimal.simps)
  apply (simp add: dec_digit_def)
  done

lemma toUTCString_first:
  "toUTCString (- 8640000000000000) = ''Tue, 20 Apr -271821 00:00:00 GMT''"
  apply (simp add: toUTCString_def date_defs)
  apply (simp add: zero_padded_def weekday_names_def month_names_def)
  apply (simp add: decimal.simps)
  apply (simp add: dec_digit_def)
  done

lemma toUTCString_invalid: "toUTCString 8640000000000001 = ''Invalid Date''"
  by (simp add: toUTCString_def)

text \<open>The test vector of FIPS 180 for the message \<open>abc\<close>.\<close>

lemma replicate_numeral: "replicate (numeral k) x = x # replicate (pred_numeral k) x"
  by (simp add: numeral_eq_Suc)

lemma sha1_hex_abc: "sha1_hex (bytes_of ''abc'') = ''a9993e364706816aba3e25717850c26c9cd0d89d''"
  by (simp add: sha1_hex_def sha1_blocks.simps sha1_block_def sha1_pad_def be64_def
      replicate_numeral bytes_of_def sha1_init_def sha1_rounds.simps sha1_f_def sha1_k_def
      rotl32_def hex32_def hex_digit_def)

subsection \<open>What the storage calls and the handlers compute\<close>

lemma current_disk_record_access [simp]:
  "current_disk (record_access a s) = disk_at s (Suc (length (accesses s)))"
  by (simp add: current_disk_def record_access_def)

lemma accesses_record_access [simp]:
  "accesses (record_access a s) = accesses s @ [a]"
  by (simp add: record_access_def)

lemma disk_at_record_access [simp]:
  "disk_at (record_access a s) = disk_at s"
  by (simp add: record_access_def)

lemma statSync_None:
  "current_disk s (path_resolve p) = None \<Longrightarrow>
   statSync p s = (Inl ENOENT, record_access (Stat (path_resolve p)) s)"
  by (simp add: statSync_def)

lemma statSync_Some:
  "current_disk s (path_resolve p) = Some f \<Longrightarrow>
   statSync p s =
     (Inr \<lparr>st_ctime = ctimeMs f, st_mtime = mtimeMs f, st_size = length (content f)\<rparr>,
      record_access (Stat (path_resolve p)) s)"
  by (simp add: statSync_def)

lemma asyncReadFile_eq:
  "asyncReadFile p s =
     (case current_disk s (path_resolve p) of
        None \<Rightarrow> Inl ENOENT
      | Some f \<Rightarrow> (case fault f of Some (n, e) \<Rightarrow> Inl e | None \<Rightarrow> Inr (content f)),
      record_access (ReadFile (path_resolve p)) s)"
  by (simp add: asyncReadFile_def readFile_def path_resolve_idem)

lemma highWaterMark_pos: "0 < highWaterMark"
  by (simp add: highWaterMark_def)

lemma getFileHash_eq:
  "getFileHash p s =
     (case current_disk s (path_resolve p) of
        None \<Rightarrow> Inl ENOENT
      | Some f \<Rightarrow> (case fault f of Some (n, e) \<Rightarrow> Inl e | None \<Rightarrow> Inr (sha1_hex (content f))),
      record_access (ReadStream (path_resolve p)) s)"
  by (simp add: getFileHash_def createReadStream_def path_resolve_idem createHash_def
      listeners_emit_End listeners_emit_Error concat_chunks highWaterMark_pos
      split: option.splits prod.splits)

lemma pipe_createReadStream:
  "(case createReadStream p s of (imgStream, s') \<Rightarrow> (pipe imgStream res, s')) =
     (case current_disk s (path_resolve p) of
        None \<Rightarrow> Uncaught ENOENT res
      | Some f \<Rightarrow>
          (case fault f of
             Some (n, e) \<Rightarrow> Uncaught e (res\<lparr>body := body res @ take n (content f)\<rparr>)
           | None \<Rightarrow> Sent (res_end [] (res\<lparr>body := body res @ content f\<rparr>))),
      record_access (ReadStream (path_resolve p)) s)"
  by (simp add: createReadStream_def pipe_emit_End pipe_emit_Error concat_chunks
      highWaterMark_pos split: option.splits prod.splits)

lemma Unchanged_Sent [simp]:
  "Unchanged (Sent r) = (statusCode r = 304 \<and> body r = [] \<and> finished r)"
  by (simp add: Unchanged_def)

lemma Unchanged_Rejected [simp]: "\<not> Unchanged (Rejected e r)"
  by (simp add: Unchanged_def)

lemma Unchanged_Uncaught [simp]: "\<not> Unchanged (Uncaught e r)"
  by (simp add: Unchanged_def)

lemma Fresh_Sent [simp]:
  "Fresh b (Sent r) = (statusCode r = 200 \<and> body r = b \<and> finished r)"
  by (simp add: Fresh_def)

lemma Fresh_Rejected [simp]: "\<not> Fresh b (Rejected e r)"
  by (simp add: Fresh_def)

lemma Fresh_Uncaught [simp]: "\<not> Fresh b (Uncaught e r)"
  by (simp add: Fresh_def)

lemma test_js_handler_eq:
  "test_js_handler req s =
     (case current_disk s ''assets/test.js'' of
        None \<Rightarrow> (Rejected ENOENT new_response, record_access (Stat ''assets/test.js'') s)
      | Some f \<Rightarrow>
          let ctime = toUTCString (ctimeMs f);
              res = setHeader ''Last-Modified'' ctime
                      (setHeader ''Content-Type'' ''text/javascript'' new_response);
              s1 = record_access (Stat ''assets/test.js'') s;
              s2 = record_access (ReadFile ''assets/test.js'') s1
          in if headers req ''if-modified-since'' = Some ctime
             then (Sent (res_end [] (res\<lparr>statusCode := 304\<rparr>)), s1)
             else
               (case current_disk s1 ''assets/test.js'' of
                  None \<Rightarrow> (Rejected ENOENT res, s2)
                | Some f' \<Rightarrow>
                    (case fault f' of
                       Some (n, e) \<Rightarrow> (Rejected e res, s2)
                     | None \<Rightarrow> (Sent (res_end (content f') res), s2))))"
  by (simp add: test_js_handler_def statSync_def asyncReadFile_eq path_resolve_test_js Let_def
      split: option.splits prod.splits)

lemma cache_policy_handler_eq:
  "cache_policy_handler req s =
     (let res0 = setHeader ''Content-Type'' ''image/jpeg'' new_response;
          s1 = record_access (ReadStream ''assets/cache_policy.jpeg'') s;
          s2 = record_access (ReadStream ''assets/cache_policy.jpeg'') s1
      in case current_disk s ''assets/cache_policy.jpeg'' of
           None \<Rightarrow> (Rejected ENOENT res0, s1)
         | Some f \<Rightarrow>
             (case fault f of
                Some (n, e) \<Rightarrow> (Rejected e res0, s1)
              | None \<Rightarrow>
                  let fileHash = sha1_hex (content f);
                      res = setHeader ''Cache-Control'' ''public, max-age=10''
                              (setHeader ''Etag'' fileHash res0)
                  in if headers req ''if-none-match'' = Some fileHash
                     then (Sent (res_end [] (res\<lparr>statusCode := 304\<rparr>)), s1)
                     else
                       (case current_disk s1 ''assets/cache_policy.jpeg'' of
                          None \<Rightarrow> (Uncaught ENOENT res, s2)
                        | Some f' \<Rightarrow>
                            (case fault f' of
                               Some (n, e) \<Rightarrow>
                                 (Uncaught e (res\<lparr>body := body res @ take n (content f')\<rparr>), s2)
                             | None \<Rightarrow>
                                 (Sent (res_end [] (res\<lparr>body := body res @ content f'\<rparr>)), s2)))))"
  by (simp add: cache_policy_handler_def getFileHash_eq pipe_createReadStream
      path_resolve_jpeg Let_def split: option.splits prod.splits)

lemma test_css_handler_eq:
  "test_css_handler req s =
     (let s1 = record_access (ReadFile ''assets/test.css'') s
      in case current_disk s ''assets/test.css'' of
           None \<Rightarrow> (Rejected ENOENT new_response, s1)
         | Some f \<Rightarrow>
             (case fault f of
                Some (n, e) \<Rightarrow> (Rejected e new_response, s1)
              | None \<Rightarrow>
                  (Sent (res_end (content f)
                     (setHeader ''Cache-Control'' ''public,max-age=30''
                       (setHeader ''Content-Type'' ''text/css'' new_response))), s1)))"
  by (simp add: test_css_handler_def asyncReadFile_eq path_resolve_test_css Let_def
      split: option.splits prod.splits)

lemma response_simps [simp]:
  "statusCode (setHeader n v r) = statusCode r"
  "body (setHeader n v r) = body r"
  "finished (setHeader n v r) = finished r"
  "statusCode (res_end d r) = statusCode r"
  "body (res_end d r) = body r @ d"
  "finished (res_end d r)"
  "res_headers (res_end d r) = res_headers r"
  "statusCode new_response = 200"
  "body new_response = []"
  "\<not> finished new_response"
  by (simp_all add: setHeader_def res_end_def new_response_def)

lemma getHeader_simps [simp]:
  "getHeader (res_end d r) n = getHeader r n"
  "getHeader (r\<lparr>statusCode := c\<rparr>) n = getHeader r n"
  "getHeader (r\<lparr>body := b\<rparr>) n = getHeader r n"
  "getHeader (setHeader m v r) n = (if toLowerCase n = toLowerCase m then Some v else getHeader r n)"
  "getHeader new_response n = None"
  by (simp_all add: getHeader_def setHeader_def res_end_def new_response_def)

subsection \<open>Dates\<close>

text \<open>
  \<open>YearFromDay\<close> is the year that the standard asks for: the one whose first day is
  not after \<open>d\<close> while the first day of the next year is.
\<close>

lemma DayFromYear_YearFromDay_le: "DayFromYear (YearFromDay d) \<le> d"
proof -
  define k where "k = (400 * d) div 146097"
  have k: "146097 * k \<le> 400 * d"
    unfolding k_def by (simp add: mult.commute [of 146097])
  show ?thesis
  proof (cases "d < DayFromYear (1970 + k)")
    case True
    have "DayFromYear (1970 + k - 1) \<le> d"
      using k unfolding DayFromYear_def by simp
    with True show ?thesis
      by (simp add: YearFromDay_def Let_def k_def)
  next
    case False
    then show ?thesis
      by (simp add: YearFromDay_def Let_def k_def)
  qed
qed

lemma DayFromYear_YearFromDay_gt: "d < DayFromYear (YearFromDay d + 1)"
proof -
  define k where "k = (400 * d) div 146097"
  have k: "400 * d < 146097 * (k + 1)"
  proof -
    define r where "r = (400 * d) mod 146097"
    have "400 * d = 146097 * k + r"
      unfolding k_def r_def by simp
    moreover have "r < 146097"
      unfolding r_def by simp
    ultimately show ?thesis by (simp add: distrib_left)
  qed
  show ?thesis
  proof (cases "d < DayFromYear (1970 + k)")
    case True
    then show ?thesis
      by (simp add: YearFromDay_def Let_def k_def)
  next
    case False
    show ?thesis
    proof (cases "DayFromYear (1970 + k + 1) \<le> d")
      case le: True
      have "d < DayFromYear (1970 + k + 1 + 1)"
        using k unfolding DayFromYear_def by simp
      with False le show ?thesis
        by (simp add: YearFromDay_def Let_def k_def add.commute)
    next
      case gt: False
      with False show ?thesis
        by (simp add: YearFromDay_def Let_def k_def)
    qed
  qed
qed

text \<open>Decimal strings consist of digits and give their number back.\<close>

lemma dec_digit_cases:
  obtains "dec_digit n = CHR ''0''" "n mod 10 = 0"
  | "dec_digit n = CHR ''1''" "n mod 10 = 1"
  | "dec_digit n = CHR ''2''" "n mod 10 = 2"
  | "dec_digit n = CHR ''3''" "n mod 10 = 3"
  | "dec_digit n = CHR ''4''" "n mod 10 = 4"
  | "dec_digit n = CHR ''5''" "n mod 10 = 5"
  | "dec_digit n = CHR ''6''" "n mod 10 = 6"
  | "dec_digit n = CHR ''7''" "n mod 10 = 7"
  | "dec_digit n = CHR ''8''" "n mod 10 = 8"
  | "dec_digit n = CHR ''9''" "n mod 10 = 9"
proof -
  define m where "m = n mod 10"
  have "m < 10" unfolding m_def by simp
  then consider "m = 0" | "m = 1" | "m = 2" | "m = 3" | "m = 4" | "m = 5" | "m = 6"
    | "m = 7" | "m = 8" | "m = 9"
    by atomize_elim arith
  then show ?thesis
    by cases (use that in \<open>simp_all add: dec_digit_def m_def [symmetric]\<close>)
qed

lemma dec_digit_in: "dec_digit n \<in> digits"
  by (cases n rule: dec_digit_cases) (simp_all add: digits_def)

lemma digit_val_dec_digit: "digit_val (dec_digit n) = n mod 10"
  by (cases n rule: dec_digit_cases) (simp_all add: digit_val_def)

lemma decimal_val_snoc: "decimal_val (s @ [c]) = 10 * decimal_val s + digit_val c"
  by (simp add: decimal_val_def)

lemma decimal_val_decimal: "decimal_val (decimal n) = n"
proof (induction n rule: decimal.induct)
  case (1 n)
  show ?case
  proof (cases "n < 10")
    case True
    then have "decimal n = [dec_digit n]"
      by (subst decimal.simps) simp
    with True show ?thesis
      by (simp add: decimal_val_def digit_val_dec_digit)
  next
    case False
    then have "decimal n = decimal (n div 10) @ [dec_digit n]"
      by (subst decimal.simps) simp
    with False 1 show ?thesis
      by (simp add: decimal_val_snoc digit_val_dec_digit)
  qed
qed

lemma set_decimal: "set (decimal n) \<subseteq> digits"
proof (induction n rule: decimal.induct)
  case (1 n)
  show ?case
  proof (cases "n < 10")
    case True
    then have "decimal n = [dec_digit n]"
      by (subst decimal.simps) simp
    then show ?thesis
      by (simp add: dec_digit_in)
  next
    case False
    then have "decimal n = decimal (n div 10) @ [dec_digit n]"
      by (subst decimal.simps) simp
    with False 1 show ?thesis
      by (simp add: dec_digit_in)
  qed
qed

lemma decimal_nonempty: "decimal n \<noteq> []"
  by (subst decimal.simps) simp

lemma decimal_val_zeros: "decimal_val (replicate k (CHR ''0'') @ s) = decimal_val s"
proof -
  have "foldl (\<lambda>a c. 10 * a + digit_val c) 0 (replicate k (CHR ''0'')) = 0"
    by (induction k) (simp_all add: digit_val_def)
  then show ?thesis
    by (simp add: decimal_val_def)
qed

lemma decimal_val_zero_padded: "decimal_val (zero_padded n k) = nat n"
  by (simp add: zero_padded_def Let_def decimal_val_zeros decimal_val_decimal)

lemma set_zero_padded: "set (zero_padded n k) \<subseteq> digits"
  using set_decimal [of "nat n"] by (auto simp: zero_padded_def Let_def digits_def)

lemma zero_padded_nonempty: "zero_padded n k \<noteq> []"
  by (simp add: zero_padded_def Let_def decimal_nonempty)

lemma zero_padded_inj:
  assumes "zero_padded a k = zero_padded b k'" and "0 \<le> a" and "0 \<le> b"
  shows "a = b"
proof -
  from assms(1) have "decimal_val (zero_padded a k) = decimal_val (zero_padded b k')"
    by simp
  with assms(2,3) show ?thesis
    by (simp add: decimal_val_zero_padded)
qed

lemma append_sep_eq:
  assumes "c \<notin> set a" and "c \<notin> set a'" and "a @ c # r = a' @ c # r'"
  shows "a = a' \<and> r = r'"
  using assms
proof (induction a arbitrary: a')
  case Nil
  then show ?case by (cases a') auto
next
  case (Cons x a)
  then show ?case by (cases a') auto
qed

lemma not_digit: "CHR '' '' \<notin> digits" "CHR '':'' \<notin> digits" "CHR ''-'' \<notin> digits"
  by (simp_all add: digits_def)

text \<open>The fields of a date are functions of the whole seconds.\<close>

lemma Day_seconds: "Day t = (t div 1000) div 86400"
proof -
  have "t div (1000 * 86400) = (t div 1000) div 86400"
    by (rule zdiv_zmult2_eq) simp
  then show ?thesis by (simp add: Day_def msPerDay_def)
qed

lemma HourFromTime_seconds: "HourFromTime t = ((t div 1000) div 3600) mod 24"
proof -
  have "t div (1000 * 3600) = (t div 1000) div 3600"
    by (rule zdiv_zmult2_eq) simp
  then show ?thesis by (simp add: HourFromTime_def)
qed

lemma MinFromTime_seconds: "MinFromTime t = ((t div 1000) div 60) mod 60"
proof -
  have "t div (1000 * 60) = (t div 1000) div 60"
    by (rule zdiv_zmult2_eq) simp
  then show ?thesis by (simp add: MinFromTime_def)
qed

lemma seconds_of_fields:
  "t div 1000 = 86400 * Day t + 3600 * HourFromTime t + 60 * MinFromTime t + SecFromTime t"
proof -
  define q where "q = t div 1000"
  have a: "q = 60 * (q div 60) + q mod 60" by simp
  have "(q div 60) div 60 = q div 3600"
    using zdiv_zmult2_eq [of 60 q 60] by simp
  then have b: "q div 60 = 60 * (q div 3600) + (q div 60) mod 60"
    using mult_div_mod_eq [of 60 "q div 60"] by simp
  have "(q div 3600) div 24 = q div 86400"
    using zdiv_zmult2_eq [of 24 q 3600] by simp
  then have c: "q div 3600 = 24 * (q div 86400) + (q div 3600) mod 24"
    using mult_div_mod_eq [of 24 "q div 3600"] by simp
  define q1 where "q1 = q div 60"
  define q2 where "q2 = q div 3600"
  define q3 where "q3 = q div 86400"
  define r0 where "r0 = q mod 60"
  define r1 where "r1 = q1 mod 60"
  define r2 where "r2 = q2 mod 24"
  have "q = 60 * q1 + r0" "q1 = 60 * q2 + r1" "q2 = 24 * q3 + r2"
    using a b c unfolding q1_def q2_def q3_def r0_def r1_def r2_def by simp_all
  then have "q = 86400 * q3 + 3600 * r2 + 60 * r1 + r0"
    by simp
  then show ?thesis
    unfolding q1_def q2_def q3_def r0_def r1_def r2_def q_def
    by (simp add: Day_seconds HourFromTime_seconds MinFromTime_seconds SecFromTime_def)
qed

lemma fields_of_seconds:
  assumes "t div 1000 = t' div 1000"
  shows "Day t = Day t'" "HourFromTime t = HourFromTime t'" "MinFromTime t = MinFromTime t'"
    "SecFromTime t = SecFromTime t'"
  using assms
  by (simp_all add: Day_seconds HourFromTime_seconds MinFromTime_seconds SecFromTime_def)

lemma time_fields_nonneg:
  "0 \<le> HourFromTime t" "0 \<le> MinFromTime t" "0 \<le> SecFromTime t"
  by (simp_all add: HourFromTime_def MinFromTime_def SecFromTime_def)

text \<open>Year, month and day of the month determine the day number.\<close>

lemma DayWithinYear_nonneg: "0 \<le> DayWithinYear t"
  using DayFromYear_YearFromDay_le [of "Day t"]
  by (simp add: DayWithinYear_def YearFromTime_def)

lemma MonthFromTime_less: "MonthFromTime t < 12"
  by (simp add: MonthFromTime_def Let_def)

lemma InLeapYear_range: "InLeapYear t = 0 \<or> InLeapYear t = 1"
  by (simp add: InLeapYear_def Let_def)

lemma DateFromTime_pos: "1 \<le> DateFromTime t"
  using DayWithinYear_nonneg [of t] InLeapYear_range [of t]
  by (auto simp: DateFromTime_def MonthFromTime_def Let_def split: if_splits)

lemma Day_of_calendar:
  assumes "YearFromTime t = YearFromTime t'" and "MonthFromTime t = MonthFromTime t'"
    and "DateFromTime t = DateFromTime t'"
  shows "Day t = Day t'"
proof -
  have l: "InLeapYear t = InLeapYear t'"
    using assms(1) by (simp add: InLeapYear_def)
  have "DayWithinYear t = DayWithinYear t'"
    using assms(3) unfolding DateFromTime_def Let_def assms(2) l
    by (simp split: if_splits)
  with assms(1) show ?thesis
    by (simp add: DayWithinYear_def)
qed

text \<open>
  Two time values in the range of dates have the same \<open>toUTCString\<close> form exactly when
  they lie in the same second.
\<close>

lemma length_weekday_name: "length (weekday_names ! WeekDay t) = 3"
proof -
  have "WeekDay t < 7"
    by (simp add: WeekDay_def)
  then consider "WeekDay t = 0" | "WeekDay t = 1" | "WeekDay t = 2" | "WeekDay t = 3"
    | "WeekDay t = 4" | "WeekDay t = 5" | "WeekDay t = 6"
    by atomize_elim arith
  then show ?thesis
    by cases (simp_all add: weekday_names_def)
qed

lemma month_name_cases:
  assumes "m < 12"
  obtains "m = 0" | "m = 1" | "m = 2" | "m = 3" | "m = 4" | "m = 5" | "m = 6" | "m = 7"
    | "m = 8" | "m = 9" | "m = 10" | "m = (11::nat)"
  using assms by atomize_elim arith

lemma length_month_name: "m < 12 \<Longrightarrow> length (month_names ! m) = 3"
  by (cases m rule: month_name_cases) (simp_all add: month_names_def)

lemma distinct_month_names: "distinct month_names"
  by (simp add: month_names_def)

lemma month_name_inj:
  assumes "m < 12" and "m' < 12" and "month_names ! m = month_names ! m'"
  shows "m = m'"
proof -
  have "length month_names = 12"
    by (simp add: month_names_def)
  with assms distinct_month_names show ?thesis
    by (simp add: nth_eq_iff_index_eq)
qed

lemma year_string_inj:
  assumes "(if 0 \<le> y then [] else ''-'') @ zero_padded \<bar>y\<bar> 4 =
           (if 0 \<le> y' then [] else ''-'') @ zero_padded \<bar>y'\<bar> 4"
  shows "y = y'"
proof -
  have hd_digit: "\<And>n. hd (zero_padded n 4) \<in> digits"
    using set_zero_padded zero_padded_nonempty by (metis hd_in_set subsetD)
  have no_minus: "\<And>n s. zero_padded n 4 \<noteq> CHR ''-'' # s"
  proof
    fix n s
    assume "zero_padded n 4 = CHR ''-'' # s"
    then have "hd (zero_padded n 4) = CHR ''-''" by simp
    with hd_digit [of n] not_digit(3) show False by simp
  qed
  show ?thesis
  proof (cases "0 \<le> y")
    case y: True
    show ?thesis
    proof (cases "0 \<le> y'")
      case True
      with y assms have "zero_padded \<bar>y\<bar> 4 = zero_padded \<bar>y'\<bar> 4" by simp
      then have "\<bar>y\<bar> = \<bar>y'\<bar>" by (rule zero_padded_inj) simp_all
      with y True show ?thesis by simp
    next
      case False
      with y assms have "zero_padded \<bar>y\<bar> 4 = CHR ''-'' # zero_padded \<bar>y'\<bar> 4"
        by simp
      with no_minus show ?thesis by blast
    qed
  next
    case y: False
    show ?thesis
    proof (cases "0 \<le> y'")
      case True
      with y assms have "zero_padded \<bar>y'\<bar> 4 = CHR ''-'' # zero_padded \<bar>y\<bar> 4"
        by simp
      with no_minus show ?thesis by blast
    next
      case False
      with y assms have "zero_padded \<bar>y\<bar> 4 = zero_padded \<bar>y'\<bar> 4" by simp
      then have "\<bar>y\<bar> = \<bar>y'\<bar>" by (rule zero_padded_inj) simp_all
      with y False show ?thesis by simp
    qed
  qed
qed

lemma no_space_in_year_string:
  "CHR '' '' \<notin> set ((if 0 \<le> y then [] else ''-'') @ zero_padded \<bar>y\<bar> 4)"
  using set_zero_padded [of "\<bar>y\<bar>" 4] not_digit(1) by auto

lemma TimeString_inj:
  assumes "TimeString t = TimeString t'"
  shows "HourFromTime t = HourFromTime t' \<and> MinFromTime t = MinFromTime t' \<and>
         SecFromTime t = SecFromTime t'"
proof -
  have colon: "\<And>n. CHR '':'' \<notin> set (zero_padded n 2)"
    using set_zero_padded not_digit(2) by blast
  from assms have
    "zero_padded (HourFromTime t) 2 @ CHR '':'' #
       (zero_padded (MinFromTime t) 2 @ CHR '':'' # (zero_padded (SecFromTime t) 2 @ '' GMT'')) =
     zero_padded (HourFromTime t') 2 @ CHR '':'' #
       (zero_padded (MinFromTime t') 2 @ CHR '':'' # (zero_padded (SecFromTime t') 2 @ '' GMT''))"
    by (simp add: TimeString_def)
  from append_sep_eq [OF colon colon this]
  have h: "zero_padded (HourFromTime t) 2 = zero_padded (HourFromTime t') 2"
    and r: "zero_padded (MinFromTime t) 2 @ CHR '':'' # (zero_padded (SecFromTime t) 2 @ '' GMT'') =
      zero_padded (MinFromTime t') 2 @ CHR '':'' # (zero_padded (SecFromTime t') 2 @ '' GMT'')"
    by simp_all
  from append_sep_eq [OF colon colon r]
  have m: "zero_padded (MinFromTime t) 2 = zero_padded (MinFromTime t') 2"
    and s: "zero_padded (SecFromTime t) 2 = zero_padded (SecFromTime t') 2"
    by simp_all
  from h m s show ?thesis
    by (auto intro: zero_padded_inj simp: time_fields_nonneg)
qed

lemma toUTCString_inj:
  assumes "\<bar>t\<bar> \<le> 8640000000000000" and "\<bar>t'\<bar> \<le> 8640000000000000"
    and "toUTCString t = toUTCString t'"
  shows "t div 1000 = t' div 1000"
proof -
  let ?Y = "\<lambda>t. (if 0 \<le> YearFromTime t then [] else ''-'') @ zero_padded \<bar>YearFromTime t\<bar> 4"
  let ?R3 = "\<lambda>t. ?Y t @ CHR '' '' # TimeString t"
  let ?R2 = "\<lambda>t. month_names ! MonthFromTime t @ CHR '' '' # ?R3 t"
  let ?R1 = "\<lambda>t. zero_padded (DateFromTime t) 2 @ CHR '' '' # ?R2 t"
  have parts: "\<And>t. \<bar>t\<bar> \<le> 8640000000000000 \<Longrightarrow>
      toUTCString t = weekday_names ! WeekDay t @ CHR '','' # CHR '' '' # ?R1 t"
    by (simp add: toUTCString_def Let_def)
  from assms parts [of t] parts [of t']
  have "weekday_names ! WeekDay t @ CHR '','' # CHR '' '' # ?R1 t =
      weekday_names ! WeekDay t' @ CHR '','' # CHR '' '' # ?R1 t'"
    by simp
  then have r1: "?R1 t = ?R1 t'"
    using length_weekday_name [of t] length_weekday_name [of t'] by simp
  have sp: "\<And>n. CHR '' '' \<notin> set (zero_padded n 2)"
    using set_zero_padded not_digit(1) by blast
  from append_sep_eq [OF sp sp r1]
  have d: "zero_padded (DateFromTime t) 2 = zero_padded (DateFromTime t') 2"
    and r2: "?R2 t = ?R2 t'"
    by simp_all
  from r2 have mn: "month_names ! MonthFromTime t = month_names ! MonthFromTime t'"
    and r3: "?R3 t = ?R3 t'"
    using length_month_name [OF MonthFromTime_less [of t]]
      length_month_name [OF MonthFromTime_less [of t']]
    by simp_all
  from append_sep_eq [OF no_space_in_year_string no_space_in_year_string r3]
  have y: "?Y t = ?Y t'" and ts: "TimeString t = TimeString t'"
    by simp_all
  have date: "DateFromTime t = DateFromTime t'"
    using d DateFromTime_pos [of t] DateFromTime_pos [of t']
    by (auto intro: zero_padded_inj)
  have month: "MonthFromTime t = MonthFromTime t'"
    using MonthFromTime_less [of t] MonthFromTime_less [of t'] mn by (rule month_name_inj)
  have year: "YearFromTime t = YearFromTime t'"
    using y by (rule year_string_inj)
  have "Day t = Day t'"
    using year month date by (rule Day_of_calendar)
  with TimeString_inj [OF ts] show ?thesis
    by (simp add: seconds_of_fields)
qed

lemma toUTCString_seconds:
  assumes "\<bar>t\<bar> \<le> 8640000000000000" and "\<bar>t'\<bar> \<le> 8640000000000000"
    and "t div 1000 = t' div 1000"
  shows "toUTCString t = toUTCString t'"
proof -
  note f = fields_of_seconds [OF assms(3)]
  have y: "YearFromTime t = YearFromTime t'"
    using f(1) by (simp add: YearFromTime_def)
  then have l: "InLeapYear t = InLeapYear t'"
    by (simp add: InLeapYear_def)
  have w: "DayWithinYear t = DayWithinYear t'"
    using f(1) y by (simp add: DayWithinYear_def)
  have m: "MonthFromTime t = MonthFromTime t'"
    using w l by (simp add: MonthFromTime_def)
  have d: "DateFromTime t = DateFromTime t'"
    using w l m by (simp add: DateFromTime_def)
  have wd: "WeekDay t = WeekDay t'"
    using f(1) by (simp add: WeekDay_def)
  have ts: "TimeString t = TimeString t'"
    using f by (simp add: TimeString_def)
  from assms(1,2) y m d wd ts show ?thesis
    by (simp add: toUTCString_def)
qed

lemma toUTCString_eq_iff:
  assumes "\<bar>t\<bar> \<le> 8640000000000000" and "\<bar>t'\<bar> \<le> 8640000000000000"
  shows "toUTCString t = toUTCString t' \<longleftrightarrow> t div 1000 = t' div 1000"
  using toUTCString_inj [OF assms] toUTCString_seconds [OF assms] by blast

lemma ex_fs_simps:
  "accesses ex_fs = []"
  "disk_at ex_fs k = ex_disk"
  "current_disk ex_fs = ex_disk"
  "ex_disk ''assets/test.js'' = Some ex_js"
  "ex_disk ''assets/test.css'' = Some ex_css"
  "ex_disk ''assets/cache_policy.jpeg'' = Some ex_jpeg"
  "fault ex_js = None" "fault ex_css = None" "fault ex_jpeg = None"
  "ctimeMs ex_js = 1652266130000"
  by (simp_all add: ex_fs_def ex_disk_def current_disk_def ex_js_def ex_css_def ex_jpeg_def)

section \<open>The claims\<close>

text \<open>
  C1. On the route \<open>/test.js\<close> the handler answers 304 with an empty body if and only
  if the request carries \<open>If-Modified-Since\<close> and its value is, character by character,
  the \<open>toUTCString\<close> form of the time stamp that \<open>statSync\<close> reports; for every other
  value, and for a request without the header, it answers 200 with the whole file as
  the read that follows the \<open>stat\<close> delivers it.
\<close>

theorem timestamp_validator_decision:
  assumes "current_disk s ''assets/test.js'' = Some f"
  shows "(Unchanged (fst (test_js_handler req s)) \<longleftrightarrow>
            headers req ''if-modified-since'' = Some (toUTCString (ctimeMs f))) \<and>
         (headers req ''if-modified-since'' \<noteq> Some (toUTCString (ctimeMs f)) \<and>
            disk_at s (Suc (length (accesses s))) ''assets/test.js'' = Some f' \<and> fault f' = None
          \<longrightarrow> Fresh (content f') (fst (test_js_handler req s)))"
  using assms
  by (auto simp: test_js_handler_eq Let_def split: option.splits)

theorem timestamp_validator_decision_witness:
  "Unchanged (fst (test_js_handler
      \<lparr>headers = [''if-modified-since'' \<mapsto> ''Wed, 11 May 2022 10:48:50 GMT'']\<rparr> ex_fs)) \<and>
   Fresh (content ex_js) (fst (test_js_handler
      \<lparr>headers = [''if-modified-since'' \<mapsto> ''Tue, 10 May 2022 10:48:50 GMT'']\<rparr> ex_fs)) \<and>
   Fresh (content ex_js) (fst (test_js_handler \<lparr>headers = Map.empty\<rparr> ex_fs))"
proof -
  have stat: "current_disk ex_fs ''assets/test.js'' = Some ex_js"
    by (simp add: ex_fs_simps)
  show ?thesis
    using timestamp_validator_decision [OF stat,
        of "\<lparr>headers = [''if-modified-since'' \<mapsto> ''Wed, 11 May 2022 10:48:50 GMT'']\<rparr>"]
      timestamp_validator_decision [OF stat,
        of "\<lparr>headers = [''if-modified-since'' \<mapsto> ''Tue, 10 May 2022 10:48:50 GMT'']\<rparr>" ex_js]
      timestamp_validator_decision [OF stat, of "\<lparr>headers = Map.empty\<rparr>" ex_js]
    by (simp add: ex_fs_simps toUTCString_example)
qed

text \<open>
  C2. On the route \<open>/cache_policy.jpeg\<close> the handler computes the digest of the whole
  file and answers 304 with an empty body if and only if \<open>If-None-Match\<close> equals that
  digest; otherwise it answers 200 with the whole file as the second read delivers it
  (the same bytes when the file has not changed in between).
\<close>

theorem hash_validator_decision:
  assumes "current_disk s ''assets/cache_policy.jpeg'' = Some f" and "fault f = None"
  shows "(Unchanged (fst (cache_policy_handler req s)) \<longleftrightarrow>
            headers req ''if-none-match'' = Some (sha1_hex (content f))) \<and>
         (headers req ''if-none-match'' \<noteq> Some (sha1_hex (content f)) \<and>
            disk_at s (Suc (length (accesses s))) ''assets/cache_policy.jpeg'' = Some f' \<and>
            fault f' = None
          \<longrightarrow> Fresh (content f') (fst (cache_policy_handler req s)))"
  using assms
  by (auto simp: cache_policy_handler_eq Let_def split: option.splits)

theorem hash_validator_decision_witness:
  "Unchanged (fst (cache_policy_handler
      \<lparr>headers = [''if-none-match'' \<mapsto> sha1_hex [0xFF, 0xD8, 0xFF, 0xE0]]\<rparr> ex_fs)) \<and>
   Fresh [0xFF, 0xD8, 0xFF, 0xE0] (fst (cache_policy_handler
      \<lparr>headers = [''if-none-match'' \<mapsto> ''a1b2c3'']\<rparr> ex_fs)) \<and>
   Fresh [0xFF, 0xD8, 0xFF, 0xE0] (fst (cache_policy_handler \<lparr>headers = Map.empty\<rparr> ex_fs))"
proof -
  have f: "current_disk ex_fs ''assets/cache_policy.jpeg'' = Some ex_jpeg" "fault ex_jpeg = None"
    by (simp_all add: ex_fs_simps)
  have c: "content ex_jpeg = [0xFF, 0xD8, 0xFF, 0xE0]"
    by (simp add: ex_jpeg_def)
  have ne: "''a1b2c3'' \<noteq> sha1_hex (content ex_jpeg)"
  proof
    assume "''a1b2c3'' = sha1_hex (content ex_jpeg)"
    then have "length ''a1b2c3'' = length (sha1_hex (content ex_jpeg))"
      by (rule arg_cong)
    then show False
      by (simp add: length_sha1_hex)
  qed
  show ?thesis
    using hash_validator_decision [OF f,
        of "\<lparr>headers = [''if-none-match'' \<mapsto> sha1_hex [0xFF, 0xD8, 0xFF, 0xE0]]\<rparr>"]
      hash_validator_decision [OF f,
        of "\<lparr>headers = [''if-none-match'' \<mapsto> ''a1b2c3'']\<rparr>" ex_jpeg]
      hash_validator_decision [OF f, of "\<lparr>headers = Map.empty\<rparr>" ex_jpeg] ne
    by (simp add: ex_fs_simps c)
qed

lemma failed_simps [simp]:
  "\<not> failed (Sent r)" "failed (Rejected e r)" "failed (Uncaught e r)"
  by (simp_all add: failed_def)

lemma status_sent_simps [simp]:
  "status_sent (Sent r) = Some (statusCode r)"
  "status_sent (Rejected e r) = None"
  "status_sent (Uncaught e r) = None"
  by (simp_all add: status_sent_def)

lemma response_of_simps [simp]:
  "response_of (Sent r) = r"
  "response_of (Rejected e r) = r"
  "response_of (Uncaught e r) = r"
  by (simp_all add: response_of_def)

lemma no_headers_simp [simp]: "headers no_headers n = None"
  by (simp add: no_headers_def)

lemma replaced_fs_simps:
  "accesses replaced_fs = []"
  "current_disk replaced_fs ''assets/cache_policy.jpeg'' = Some ex_jpeg"
  "disk_at replaced_fs (Suc 0) ''assets/cache_policy.jpeg'' = Some ex_jpeg_v2"
  "fault ex_jpeg_v2 = None"
  "content ex_jpeg_v2 = [0xFF, 0xD8, 0xFF, 0xE1, 0x00]"
  "content ex_jpeg = [0xFF, 0xD8, 0xFF, 0xE0]"
  by (simp_all add: replaced_fs_def current_disk_def ex_disk_def ex_jpeg_v2_def ex_jpeg_def)

text \<open>
  C3 as stated fails. A request that is answered 200 opens the file twice: once in
  \<open>getFileHash\<close> and once more for the body. When the file is replaced between the two
  reads, the body sent is the new content while the \<open>Etag\<close> is the digest of the old.
\<close>

theorem hash_route_reads_twice_counterexample:
  "body_reads ''assets/cache_policy.jpeg'' (snd (cache_policy_handler no_headers ex_fs)) = 2 \<and>
   Fresh [0xFF, 0xD8, 0xFF, 0xE1, 0x00] (fst (cache_policy_handler no_headers replaced_fs)) \<and>
   getHeader (response_of (fst (cache_policy_handler no_headers replaced_fs))) ''ETag'' =
     Some (sha1_hex [0xFF, 0xD8, 0xFF, 0xE0]) \<and>
   [0xFF, 0xD8, 0xFF, 0xE1, 0x00] \<noteq> [0xFF, 0xD8, 0xFF, 0xE0 :: byte]"
  by (simp add: cache_policy_handler_eq Let_def ex_fs_simps replaced_fs_simps body_reads_def
      toLowerCase_names)

text \<open>
  C3, amended. On the route \<open>/cache_policy.jpeg\<close> a request answered 304 reads the file
  once, for the digest. A request answered 200 reads it twice, and the body sent is what
  the second read delivers: the digested bytes exactly when the file has not changed in
  between.
\<close>

theorem hash_route_reads:
  assumes "current_disk s ''assets/cache_policy.jpeg'' = Some f" and "fault f = None"
  shows "(headers req ''if-none-match'' = Some (sha1_hex (content f)) \<longrightarrow>
            accesses (snd (cache_policy_handler req s)) =
              accesses s @ [ReadStream ''assets/cache_policy.jpeg'']) \<and>
         (headers req ''if-none-match'' \<noteq> Some (sha1_hex (content f)) \<longrightarrow>
            accesses (snd (cache_policy_handler req s)) =
              accesses s @ [ReadStream ''assets/cache_policy.jpeg'',
                            ReadStream ''assets/cache_policy.jpeg''] \<and>
            (disk_at s (Suc (length (accesses s))) ''assets/cache_policy.jpeg'' = Some f' \<and>
             fault f' = None \<longrightarrow>
               Fresh (content f') (fst (cache_policy_handler req s))))"
  using assms
  by (auto simp: cache_policy_handler_eq Let_def split: option.splits)

theorem hash_route_reads_witness:
  "accesses (snd (cache_policy_handler no_headers replaced_fs)) =
     [ReadStream ''assets/cache_policy.jpeg'', ReadStream ''assets/cache_policy.jpeg''] \<and>
   Fresh (content ex_jpeg_v2) (fst (cache_policy_handler no_headers replaced_fs)) \<and>
   accesses (snd (cache_policy_handler
       \<lparr>headers = [''if-none-match'' \<mapsto> sha1_hex (content ex_jpeg)]\<rparr> replaced_fs)) =
     [ReadStream ''assets/cache_policy.jpeg'']"
proof -
  have f: "current_disk replaced_fs ''assets/cache_policy.jpeg'' = Some ex_jpeg"
    "fault ex_jpeg = None"
    by (simp_all add: replaced_fs_simps ex_fs_simps)
  show ?thesis
    using hash_route_reads [OF f, of no_headers ex_jpeg_v2]
      hash_route_reads [OF f,
        of "\<lparr>headers = [''if-none-match'' \<mapsto> sha1_hex (content ex_jpeg)]\<rparr>"]
    by (simp add: replaced_fs_simps)
qed

lemma all_accesses_ok_1:
  "accesses s = [] \<Longrightarrow> all_accesses_ok (record_access a s) = access_ok (disk_at s 0) a"
  by (simp add: all_accesses_ok_def record_access_def)

lemma all_accesses_ok_2:
  "accesses s = [] \<Longrightarrow>
   all_accesses_ok (record_access b (record_access a s)) =
     (access_ok (disk_at s 0) a \<and> access_ok (disk_at s (Suc 0)) b)"
  by (simp add: all_accesses_ok_def record_access_def)

lemma missing_fs_simps:
  "accesses missing_fs = []"
  "current_disk missing_fs p = None"
  "disk_at missing_fs k p = None"
  by (simp_all add: missing_fs_def current_disk_def)

lemma faulty_fs_simps:
  "accesses faulty_fs = []"
  "current_disk faulty_fs ''assets/test.js'' = Some (ex_js\<lparr>fault := Some (2, EIO)\<rparr>)"
  "disk_at faulty_fs k ''assets/test.js'' = Some (ex_js\<lparr>fault := Some (2, EIO)\<rparr>)"
  "current_disk faulty_fs ''assets/cache_policy.jpeg'' = Some (ex_jpeg\<lparr>fault := Some (2, EIO)\<rparr>)"
  "disk_at faulty_fs k ''assets/cache_policy.jpeg'' = Some (ex_jpeg\<lparr>fault := Some (2, EIO)\<rparr>)"
  by (simp_all add: faulty_fs_def current_disk_def)

text \<open>
  C4 as stated fails. \<open>app.js\<close> maps no error to a status: when \<open>test.js\<close> does not
  exist, \<open>statSync\<close> throws and the promise of the handler rejects with \<open>ENOENT\<close>; when
  reading the picture fails, \<open>getFileHash\<close> rejects with the error of the stream. In
  neither case does the handler put 404 or 500 on the response or end it.
\<close>

theorem storage_failure_status_counterexample:
  "fst (test_js_handler no_headers missing_fs) = Rejected ENOENT new_response \<and>
   status_sent (fst (test_js_handler no_headers missing_fs)) \<noteq> Some 404 \<and>
   fst (cache_policy_handler no_headers faulty_fs) =
     Rejected EIO (setHeader ''Content-Type'' ''image/jpeg'' new_response) \<and>
   status_sent (fst (cache_policy_handler no_headers faulty_fs)) \<noteq> Some 500"
  by (simp add: test_js_handler_eq cache_policy_handler_eq Let_def missing_fs_simps
      faulty_fs_simps)

text \<open>
  C4, amended. On the two validated routes a request fails exactly when one of its
  storage accesses fails, and then the handler has put no status on the response (it
  still has the initial 200), has not ended it, and the outcome is never 304. What
  becomes of the request is fixed by the access that fails. On \<open>/test.js\<close>: when the file
  does not exist, the promise of the handler rejects with \<open>ENOENT\<close> before any header is
  set; when the read after a mismatch fails, it rejects with the error of the read, with
  both headers set and nothing written. On \<open>/cache_policy.jpeg\<close>: when the read for the
  digest fails, the promise rejects with the error of the stream, with only
  \<open>Content-Type\<close> set; when the second read fails, the \<open>error\<close> event of the stream is
  unhandled, and the response stays open with the bytes delivered before the failure.
\<close>

theorem storage_failure_propagates:
  assumes "accesses s = []"
  shows "(failed (fst (test_js_handler req s)) \<longleftrightarrow>
            \<not> all_accesses_ok (snd (test_js_handler req s))) \<and>
         (failed (fst (cache_policy_handler req s)) \<longleftrightarrow>
            \<not> all_accesses_ok (snd (cache_policy_handler req s))) \<and>
         (\<not> all_accesses_ok (snd (test_js_handler req s)) \<longrightarrow>
            \<not> Unchanged (fst (test_js_handler req s)) \<and>
            statusCode (response_of (fst (test_js_handler req s))) = 200 \<and>
            \<not> finished (response_of (fst (test_js_handler req s)))) \<and>
         (\<not> all_accesses_ok (snd (cache_policy_handler req s)) \<longrightarrow>
            \<not> Unchanged (fst (cache_policy_handler req s)) \<and>
            statusCode (response_of (fst (cache_policy_handler req s))) = 200 \<and>
            \<not> finished (response_of (fst (cache_policy_handler req s)))) \<and>
         (disk_at s 0 ''assets/test.js'' = None \<longrightarrow>
            fst (test_js_handler req s) = Rejected ENOENT new_response) \<and>
         (disk_at s 0 ''assets/test.js'' = Some f \<and>
          headers req ''if-modified-since'' \<noteq> Some (toUTCString (ctimeMs f)) \<and>
          disk_at s 1 ''assets/test.js'' = None \<longrightarrow>
            fst (test_js_handler req s) =
              Rejected ENOENT
                (setHeader ''Last-Modified'' (toUTCString (ctimeMs f))
                  (setHeader ''Content-Type'' ''text/javascript'' new_response))) \<and>
         (disk_at s 0 ''assets/test.js'' = Some f \<and>
          headers req ''if-modified-since'' \<noteq> Some (toUTCString (ctimeMs f)) \<and>
          disk_at s 1 ''assets/test.js'' = Some f' \<and> fault f' = Some (n, e) \<longrightarrow>
            fst (test_js_handler req s) =
              Rejected e
                (setHeader ''Last-Modified'' (toUTCString (ctimeMs f))
                  (setHeader ''Content-Type'' ''text/javascript'' new_response))) \<and>
         (disk_at s 0 ''assets/cache_policy.jpeg'' = None \<longrightarrow>
            fst (cache_policy_handler req s) =
              Rejected ENOENT (setHeader ''Content-Type'' ''image/jpeg'' new_response)) \<and>
         (disk_at s 0 ''assets/cache_policy.jpeg'' = Some g \<and> fault g = Some (n, e) \<longrightarrow>
            fst (cache_policy_handler req s) =
              Rejected e (setHeader ''Content-Type'' ''image/jpeg'' new_response)) \<and>
         (disk_at s 0 ''assets/cache_policy.jpeg'' = Some g \<and> fault g = None \<and>
          headers req ''if-none-match'' \<noteq> Some (sha1_hex (content g)) \<and>
          disk_at s 1 ''assets/cache_policy.jpeg'' = None \<longrightarrow>
            fst (cache_policy_handler req s) =
              Uncaught ENOENT
                (setHeader ''Cache-Control'' ''public, max-age=10''
                  (setHeader ''Etag'' (sha1_hex (content g))
                    (setHeader ''Content-Type'' ''image/jpeg'' new_response)))) \<and>
         (disk_at s 0 ''assets/cache_policy.jpeg'' = Some g \<and> fault g = None \<and>
          headers req ''if-none-match'' \<noteq> Some (sha1_hex (content g)) \<and>
          disk_at s 1 ''assets/cache_policy.jpeg'' = Some g' \<and> fault g' = Some (n, e) \<longrightarrow>
            fst (cache_policy_handler req s) =
              Uncaught e
                ((setHeader ''Cache-Control'' ''public, max-age=10''
                   (setHeader ''Etag'' (sha1_hex (content g))
                     (setHeader ''Content-Type'' ''image/jpeg'' new_response)))
                 \<lparr>body := take n (content g')\<rparr>))"
proof -
  have cur: "current_disk s = disk_at s 0"
    using assms by (simp add: current_disk_def)
  have js: "failed (fst (test_js_handler req s)) \<longleftrightarrow>
      \<not> all_accesses_ok (snd (test_js_handler req s))"
    using assms
    by (auto simp: test_js_handler_eq Let_def cur all_accesses_ok_1 all_accesses_ok_2
        readable_def split: option.splits)
  have jpeg: "failed (fst (cache_policy_handler req s)) \<longleftrightarrow>
      \<not> all_accesses_ok (snd (cache_policy_handler req s))"
    using assms
    by (auto simp: cache_policy_handler_eq Let_def cur all_accesses_ok_1 all_accesses_ok_2
        readable_def split: option.splits)
  have js_open: "failed (fst (test_js_handler req s)) \<longrightarrow>
      \<not> Unchanged (fst (test_js_handler req s)) \<and>
      statusCode (response_of (fst (test_js_handler req s))) = 200 \<and>
      \<not> finished (response_of (fst (test_js_handler req s)))"
    by (auto simp: test_js_handler_eq Let_def split: option.splits)
  have jpeg_open: "failed (fst (cache_policy_handler req s)) \<longrightarrow>
      \<not> Unchanged (fst (cache_policy_handler req s)) \<and>
      statusCode (response_of (fst (cache_policy_handler req s))) = 200 \<and>
      \<not> finished (response_of (fst (cache_policy_handler req s)))"
    by (auto simp: cache_policy_handler_eq Let_def split: option.splits)
  have c3: "\<not> all_accesses_ok (snd (test_js_handler req s)) \<longrightarrow>
      \<not> Unchanged (fst (test_js_handler req s)) \<and>
      statusCode (response_of (fst (test_js_handler req s))) = 200 \<and>
      \<not> finished (response_of (fst (test_js_handler req s)))"
    using js js_open by blast
  have c4: "\<not> all_accesses_ok (snd (cache_policy_handler req s)) \<longrightarrow>
      \<not> Unchanged (fst (cache_policy_handler req s)) \<and>
      statusCode (response_of (fst (cache_policy_handler req s))) = 200 \<and>
      \<not> finished (response_of (fst (cache_policy_handler req s)))"
    using jpeg jpeg_open by blast
  have c5: "disk_at s 0 ''assets/test.js'' = None \<longrightarrow>
      fst (test_js_handler req s) = Rejected ENOENT new_response"
    by (simp add: test_js_handler_eq cur)
  have c6: "disk_at s 0 ''assets/test.js'' = Some f \<and>
      headers req ''if-modified-since'' \<noteq> Some (toUTCString (ctimeMs f)) \<and>
      disk_at s 1 ''assets/test.js'' = None \<longrightarrow>
        fst (test_js_handler req s) =
          Rejected ENOENT
            (setHeader ''Last-Modified'' (toUTCString (ctimeMs f))
              (setHeader ''Content-Type'' ''text/javascript'' new_response))"
    using assms by (simp add: test_js_handler_eq cur Let_def)
  have c7: "disk_at s 0 ''assets/test.js'' = Some f \<and>
      headers req ''if-modified-since'' \<noteq> Some (toUTCString (ctimeMs f)) \<and>
      disk_at s 1 ''assets/test.js'' = Some f' \<and> fault f' = Some (n, e) \<longrightarrow>
        fst (test_js_handler req s) =
          Rejected e
            (setHeader ''Last-Modified'' (toUTCString (ctimeMs f))
              (setHeader ''Content-Type'' ''text/javascript'' new_response))"
    using assms by (simp add: test_js_handler_eq cur Let_def)
  have c8: "disk_at s 0 ''assets/cache_policy.jpeg'' = None \<longrightarrow>
      fst (cache_policy_handler req s) =
        Rejected ENOENT (setHeader ''Content-Type'' ''image/jpeg'' new_response)"
    by (simp add: cache_policy_handler_eq cur Let_def)
  have c9: "disk_at s 0 ''assets/cache_policy.jpeg'' = Some g \<and> fault g = Some (n, e) \<longrightarrow>
      fst (cache_policy_handler req s) =
        Rejected e (setHeader ''Content-Type'' ''image/jpeg'' new_response)"
    by (simp add: cache_policy_handler_eq cur Let_def)
  have c10: "disk_at s 0 ''assets/cache_policy.jpeg'' = Some g \<and> fault g = None \<and>
      headers req ''if-none-match'' \<noteq> Some (sha1_hex (content g)) \<and>
      disk_at s 1 ''assets/cache_policy.jpeg'' = None \<longrightarrow>
        fst (cache_policy_handler req s) =
          Uncaught ENOENT
            (setHeader ''Cache-Control'' ''public, max-age=10''
              (setHeader ''Etag'' (sha1_hex (content g))
                (setHeader ''Content-Type'' ''image/jpeg'' new_response)))"
    using assms by (simp add: cache_policy_handler_eq cur Let_def)
  have c11: "disk_at s 0 ''assets/cache_policy.jpeg'' = Some g \<and> fault g = None \<and>
      headers req ''if-none-match'' \<noteq> Some (sha1_hex (content g)) \<and>
      disk_at s 1 ''assets/cache_policy.jpeg'' = Some g' \<and> fault g' = Some (n, e) \<longrightarrow>
        fst (cache_policy_handler req s) =
          Uncaught e
            ((setHeader ''Cache-Control'' ''public, max-age=10''
               (setHeader ''Etag'' (sha1_hex (content g))
                 (setHeader ''Content-Type'' ''image/jpeg'' new_response)))
             \<lparr>body := take n (content g')\<rparr>)"
    using assms by (simp add: cache_policy_handler_eq cur Let_def)
  show ?thesis
    by (intro conjI) (rule js jpeg c3 c4 c5 c6 c7 c8 c9 c10 c11)+
qed

lemma deleted_fs_simps:
  "accesses deleted_fs = []"
  "disk_at deleted_fs 0 = ex_disk"
  "disk_at deleted_fs (Suc k) p = None"
  by (simp_all add: deleted_fs_def)

lemma second_read_fails_fs_simps:
  "accesses second_read_fails_fs = []"
  "disk_at second_read_fails_fs 0 = ex_disk"
  "disk_at second_read_fails_fs (Suc k) ''assets/test.js'' =
     Some (ex_js\<lparr>fault := Some (2, EIO)\<rparr>)"
  "disk_at second_read_fails_fs (Suc k) ''assets/cache_policy.jpeg'' =
     Some (ex_jpeg\<lparr>fault := Some (2, EIO)\<rparr>)"
  by (simp_all add: second_read_fails_fs_def)

theorem storage_failure_propagates_witness:
  "fst (test_js_handler no_headers missing_fs) = Rejected ENOENT new_response \<and>
   fst (cache_policy_handler no_headers missing_fs) =
     Rejected ENOENT (setHeader ''Content-Type'' ''image/jpeg'' new_response) \<and>
   fst (cache_policy_handler no_headers faulty_fs) =
     Rejected EIO (setHeader ''Content-Type'' ''image/jpeg'' new_response) \<and>
   fst (test_js_handler no_headers second_read_fails_fs) =
     Rejected EIO
       (setHeader ''Last-Modified'' ''Wed, 11 May 2022 10:48:50 GMT''
         (setHeader ''Content-Type'' ''text/javascript'' new_response)) \<and>
   fst (cache_policy_handler no_headers second_read_fails_fs) =
     Uncaught EIO
       ((setHeader ''Cache-Control'' ''public, max-age=10''
          (setHeader ''Etag'' (sha1_hex [0xFF, 0xD8, 0xFF, 0xE0])
            (setHeader ''Content-Type'' ''image/jpeg'' new_response)))
        \<lparr>body := [0xFF, 0xD8]\<rparr>) \<and>
   fst (test_js_handler no_headers deleted_fs) =
     Rejected ENOENT
       (setHeader ''Last-Modified'' ''Wed, 11 May 2022 10:48:50 GMT''
         (setHeader ''Content-Type'' ''text/javascript'' new_response)) \<and>
   fst (cache_policy_handler no_headers deleted_fs) =
     Uncaught ENOENT
       (setHeader ''Cache-Control'' ''public, max-age=10''
         (setHeader ''Etag'' (sha1_hex [0xFF, 0xD8, 0xFF, 0xE0])
           (setHeader ''Content-Type'' ''image/jpeg'' new_response))) \<and>
   \<not> all_accesses_ok (snd (cache_policy_handler no_headers second_read_fails_fs)) \<and>
   statusCode (response_of (fst (cache_policy_handler no_headers second_read_fails_fs))) = 200 \<and>
   \<not> finished (response_of (fst (cache_policy_handler no_headers second_read_fails_fs))) \<and>
   \<not> Unchanged (fst (cache_policy_handler no_headers second_read_fails_fs)) \<and>
   all_accesses_ok (snd (test_js_handler no_headers ex_fs)) \<and>
   \<not> failed (fst (test_js_handler no_headers ex_fs))"
proof -
  let ?broken_js = "ex_js\<lparr>fault := Some (2, EIO)\<rparr>"
  let ?broken_jpeg = "ex_jpeg\<lparr>fault := Some (2, EIO)\<rparr>"
  have c: "content ex_jpeg = [0xFF, 0xD8, 0xFF, 0xE0]" "ctimeMs ex_js = 1652266130000"
    by (simp_all add: ex_jpeg_def ex_js_def)
  have missing:
    "fst (test_js_handler no_headers missing_fs) = Rejected ENOENT new_response"
    "fst (cache_policy_handler no_headers missing_fs) =
       Rejected ENOENT (setHeader ''Content-Type'' ''image/jpeg'' new_response)"
    using storage_failure_propagates [where s = missing_fs and req = no_headers and f = ex_js
        and f' = ex_js and g = ex_jpeg and g' = ex_jpeg and n = 2 and e = EIO]
    by (simp_all add: missing_fs_simps)
  have faulty:
    "fst (cache_policy_handler no_headers faulty_fs) =
       Rejected EIO (setHeader ''Content-Type'' ''image/jpeg'' new_response)"
    using storage_failure_propagates [where s = faulty_fs and req = no_headers
        and f = ?broken_js and f' = ?broken_js and g = ?broken_jpeg and g' = ?broken_jpeg
        and n = 2 and e = EIO]
    by (simp add: faulty_fs_simps)
  have second:
    "fst (test_js_handler no_headers second_read_fails_fs) =
       Rejected EIO
         (setHeader ''Last-Modified'' ''Wed, 11 May 2022 10:48:50 GMT''
           (setHeader ''Content-Type'' ''text/javascript'' new_response))"
    "fst (cache_policy_handler no_headers second_read_fails_fs) =
       Uncaught EIO
         ((setHeader ''Cache-Control'' ''public, max-age=10''
            (setHeader ''Etag'' (sha1_hex [0xFF, 0xD8, 0xFF, 0xE0])
              (setHeader ''Content-Type'' ''image/jpeg'' new_response)))
          \<lparr>body := [0xFF, 0xD8]\<rparr>)"
    using storage_failure_propagates [where s = second_read_fails_fs and req = no_headers
        and f = ex_js and f' = ?broken_js and g = ex_jpeg and g' = ?broken_jpeg
        and n = 2 and e = EIO]
    by (simp_all add: second_read_fails_fs_simps ex_fs_simps c toUTCString_example)
  have deleted:
    "fst (test_js_handler no_headers deleted_fs) =
       Rejected ENOENT
         (setHeader ''Last-Modified'' ''Wed, 11 May 2022 10:48:50 GMT''
           (setHeader ''Content-Type'' ''text/javascript'' new_response))"
    "fst (cache_policy_handler no_headers deleted_fs) =
       Uncaught ENOENT
         (setHeader ''Cache-Control'' ''public, max-age=10''
           (setHeader ''Etag'' (sha1_hex [0xFF, 0xD8, 0xFF, 0xE0])
             (setHeader ''Content-Type'' ''image/jpeg'' new_response)))"
    using storage_failure_propagates [where s = deleted_fs and req = no_headers
        and f = ex_js and f' = ex_js and g = ex_jpeg and g' = ex_jpeg and n = 2 and e = EIO]
    by (simp_all add: deleted_fs_simps ex_fs_simps c toUTCString_example)
  have "failed (fst (cache_policy_handler no_headers second_read_fails_fs))"
    by (simp add: second(2))
  with storage_failure_propagates [where s = second_read_fails_fs and req = no_headers
      and f = ex_js and f' = ?broken_js and g = ex_jpeg and g' = ?broken_jpeg
      and n = 2 and e = EIO]
  have open_response:
    "\<not> all_accesses_ok (snd (cache_policy_handler no_headers second_read_fails_fs))"
    "statusCode (response_of (fst (cache_policy_handler no_headers second_read_fails_fs))) = 200"
    "\<not> finished (response_of (fst (cache_policy_handler no_headers second_read_fails_fs)))"
    "\<not> Unchanged (fst (cache_policy_handler no_headers second_read_fails_fs))"
    by (simp_all add: second_read_fails_fs_simps)
  have "\<not> failed (fst (test_js_handler no_headers ex_fs))"
    by (simp add: test_js_handler_eq Let_def ex_fs_simps)
  with storage_failure_propagates [where s = ex_fs and req = no_headers
      and f = ex_js and f' = ex_js and g = ex_jpeg and g' = ex_jpeg and n = 2 and e = EIO]
  have fine: "all_accesses_ok (snd (test_js_handler no_headers ex_fs))"
    "\<not> failed (fst (test_js_handler no_headers ex_fs))"
    by (simp_all add: ex_fs_simps)
  from missing faulty second deleted open_response fine show ?thesis
    by (intro conjI)
qed

text \<open>
  C5. On the route \<open>/test.css\<close> the request is not looked at: whatever headers it
  carries, the answer is the same, and for a file that can be read it is 200 with the
  whole file and \<open>Cache-Control: public,max-age=30\<close>.
\<close>

theorem forced_cache_unconditional:
  assumes "current_disk s ''assets/test.css'' = Some f" and "fault f = None"
  shows "Fresh (content f) (fst (test_css_handler req s)) \<and>
         getHeader (response_of (fst (test_css_handler req s))) ''Cache-Control'' =
           Some ''public,max-age=30'' \<and>
         test_css_handler req s = test_css_handler req' s"
  using assms
  by (simp add: test_css_handler_eq Let_def toLowerCase_names)

theorem forced_cache_unconditional_witness:
  "Fresh (content ex_css) (fst (test_css_handler
      \<lparr>headers = [''if-modified-since'' \<mapsto> ''Wed, 11 May 2022 10:48:50 GMT'',
                   ''if-none-match'' \<mapsto> ''a1b2c3'']\<rparr> ex_fs)) \<and>
   getHeader (response_of (fst (test_css_handler
      \<lparr>headers = [''if-modified-since'' \<mapsto> ''Wed, 11 May 2022 10:48:50 GMT'',
                   ''if-none-match'' \<mapsto> ''a1b2c3'']\<rparr> ex_fs))) ''Cache-Control'' =
     Some ''public,max-age=30'' \<and>
   test_css_handler
      \<lparr>headers = [''if-modified-since'' \<mapsto> ''Wed, 11 May 2022 10:48:50 GMT'',
                   ''if-none-match'' \<mapsto> ''a1b2c3'']\<rparr> ex_fs =
     test_css_handler no_headers ex_fs"
proof -
  have f: "current_disk ex_fs ''assets/test.css'' = Some ex_css" "fault ex_css = None"
    by (simp_all add: ex_fs_simps)
  show ?thesis
    by (rule forced_cache_unconditional [OF f])
qed

lemma test_js_Sent:
  assumes "fst (test_js_handler req s) = Sent r"
  shows "\<exists>f. current_disk s ''assets/test.js'' = Some f \<and>
           getHeader r ''Last-Modified'' = Some (toUTCString (ctimeMs f)) \<and>
           getHeader r ''Content-Type'' = Some ''text/javascript'' \<and>
           (statusCode r = 200 \<or> statusCode r = 304)"
proof (cases "current_disk s ''assets/test.js''")
  case None
  with assms show ?thesis by (simp add: test_js_handler_eq)
next
  case (Some f)
  let ?res = "setHeader ''Last-Modified'' (toUTCString (ctimeMs f))
                (setHeader ''Content-Type'' ''text/javascript'' new_response)"
  have h: "getHeader ?res ''Last-Modified'' = Some (toUTCString (ctimeMs f))"
    "getHeader ?res ''Content-Type'' = Some ''text/javascript''"
    by (simp_all add: toLowerCase_names)
  from assms Some have "r = res_end [] (?res\<lparr>statusCode := 304\<rparr>) \<or>
      (\<exists>b. r = res_end b ?res)"
    by (auto simp: test_js_handler_eq Let_def split: option.splits if_splits prod.splits)
  with h Some show ?thesis by auto
qed

lemma cache_policy_Sent:
  assumes "fst (cache_policy_handler req s) = Sent r"
  shows "\<exists>g. current_disk s ''assets/cache_policy.jpeg'' = Some g \<and>
           getHeader r ''ETag'' = Some (sha1_hex (content g)) \<and>
           getHeader r ''Cache-Control'' = Some ''public, max-age=10'' \<and>
           getHeader r ''Content-Type'' = Some ''image/jpeg'' \<and>
           (statusCode r = 200 \<or> statusCode r = 304)"
proof (cases "current_disk s ''assets/cache_policy.jpeg''")
  case None
  with assms show ?thesis by (simp add: cache_policy_handler_eq Let_def)
next
  case (Some g)
  let ?res = "setHeader ''Cache-Control'' ''public, max-age=10''
                (setHeader ''Etag'' (sha1_hex (content g))
                  (setHeader ''Content-Type'' ''image/jpeg'' new_response))"
  have h: "getHeader ?res ''ETag'' = Some (sha1_hex (content g))"
    "getHeader ?res ''Cache-Control'' = Some ''public, max-age=10''"
    "getHeader ?res ''Content-Type'' = Some ''image/jpeg''"
    by (simp_all add: toLowerCase_names)
  from assms Some have "r = res_end [] (?res\<lparr>statusCode := 304\<rparr>) \<or>
      (\<exists>b. r = res_end [] (?res\<lparr>body := b\<rparr>))"
    by (auto simp: cache_policy_handler_eq Let_def split: option.splits if_splits prod.splits)
  with h Some show ?thesis by auto
qed

text \<open>
  C6. Every response that the route \<open>/test.js\<close> ends, 200 or 304, carries
  \<open>Last-Modified\<close> with the \<open>toUTCString\<close> form of the time stamp of the file, and every
  response that the route \<open>/cache_policy.jpeg\<close> ends, 200 or 304, carries the digest of
  the file as its entity tag.
\<close>

theorem validator_header_on_every_response:
  "(fst (test_js_handler req s) = Sent r \<longrightarrow>
      (\<exists>f. current_disk s ''assets/test.js'' = Some f \<and>
           getHeader r ''Last-Modified'' = Some (toUTCString (ctimeMs f))) \<and>
      (statusCode r = 200 \<or> statusCode r = 304)) \<and>
   (fst (cache_policy_handler req s) = Sent r' \<longrightarrow>
      (\<exists>g. current_disk s ''assets/cache_policy.jpeg'' = Some g \<and>
           getHeader r' ''ETag'' = Some (sha1_hex (content g))) \<and>
      (statusCode r' = 200 \<or> statusCode r' = 304))"
  using test_js_Sent [of req s r] cache_policy_Sent [of req s r'] by blast

theorem validator_header_on_every_response_witness:
  "fst (test_js_handler no_headers ex_fs) =
     Sent (response_of (fst (test_js_handler no_headers ex_fs))) \<and>
   statusCode (response_of (fst (test_js_handler no_headers ex_fs))) = 200 \<and>
   getHeader (response_of (fst (test_js_handler no_headers ex_fs))) ''Last-Modified'' =
     Some ''Wed, 11 May 2022 10:48:50 GMT'' \<and>
   fst (cache_policy_handler
      \<lparr>headers = [''if-none-match'' \<mapsto> sha1_hex (content ex_jpeg)]\<rparr> ex_fs) =
     Sent (response_of (fst (cache_policy_handler
      \<lparr>headers = [''if-none-match'' \<mapsto> sha1_hex (content ex_jpeg)]\<rparr> ex_fs))) \<and>
   statusCode (response_of (fst (cache_policy_handler
      \<lparr>headers = [''if-none-match'' \<mapsto> sha1_hex (content ex_jpeg)]\<rparr> ex_fs))) = 304 \<and>
   getHeader (response_of (fst (cache_policy_handler
      \<lparr>headers = [''if-none-match'' \<mapsto> sha1_hex (content ex_jpeg)]\<rparr> ex_fs))) ''ETag'' =
     Some (sha1_hex (content ex_jpeg))"
proof -
  let ?req = "\<lparr>headers = [''if-none-match'' \<mapsto> sha1_hex (content ex_jpeg)]\<rparr>"
  let ?r = "response_of (fst (test_js_handler no_headers ex_fs))"
  let ?r' = "response_of (fst (cache_policy_handler ?req ex_fs))"
  have js: "fst (test_js_handler no_headers ex_fs) = Sent ?r" "statusCode ?r = 200"
    by (simp_all add: test_js_handler_eq Let_def ex_fs_simps)
  have jpeg: "fst (cache_policy_handler ?req ex_fs) = Sent ?r'" "statusCode ?r' = 304"
    by (simp_all add: cache_policy_handler_eq Let_def ex_fs_simps)
  from validator_header_on_every_response [where req = no_headers and s = ex_fs and r = ?r]
    validator_header_on_every_response [where req = ?req and s = ex_fs and r' = ?r']
    js(1) jpeg(1)
  have "getHeader ?r ''Last-Modified'' = Some (toUTCString (ctimeMs ex_js))"
    and "getHeader ?r' ''ETag'' = Some (sha1_hex (content ex_jpeg))"
    by (auto simp: ex_fs_simps)
  with js jpeg show ?thesis
    by (simp add: ex_fs_simps toUTCString_example)
qed

text \<open>
  C7. With the files unchanged, a request without conditional headers is answered 200
  with the whole file and a validator header, and any later request that carries that
  value in the matching conditional header is answered 304; on both validated routes.
\<close>

theorem validator_round_trip:
  assumes "disk_at s = (\<lambda>k. d)" and "disk_at s' = (\<lambda>k. d)"
    and "d ''assets/test.js'' = Some f" and "fault f = None"
    and "d ''assets/cache_policy.jpeg'' = Some g" and "fault g = None"
    and "headers req ''if-modified-since'' = None" and "headers req ''if-none-match'' = None"
  shows "Fresh (content f) (fst (test_js_handler req s)) \<and>
         (\<exists>v. getHeader (response_of (fst (test_js_handler req s))) ''Last-Modified'' = Some v \<and>
              (\<forall>req'. headers req' ''if-modified-since'' = Some v \<longrightarrow>
                 Unchanged (fst (test_js_handler req' s')))) \<and>
         Fresh (content g) (fst (cache_policy_handler req s)) \<and>
         (\<exists>v. getHeader (response_of (fst (cache_policy_handler req s))) ''ETag'' = Some v \<and>
              (\<forall>req'. headers req' ''if-none-match'' = Some v \<longrightarrow>
                 Unchanged (fst (cache_policy_handler req' s'))))"
proof -
  have cur: "current_disk s = d" "current_disk s' = d" "\<And>k. disk_at s k = d"
    using assms(1,2) by (simp_all add: current_disk_def)
  have js1: "Fresh (content f) (fst (test_js_handler req s))"
    and js2: "getHeader (response_of (fst (test_js_handler req s))) ''Last-Modified'' =
      Some (toUTCString (ctimeMs f))"
    using assms(3,4,7) by (simp_all add: test_js_handler_eq Let_def cur toLowerCase_names)
  have js3: "\<forall>req'. headers req' ''if-modified-since'' = Some (toUTCString (ctimeMs f)) \<longrightarrow>
      Unchanged (fst (test_js_handler req' s'))"
    using assms(3) by (simp add: test_js_handler_eq Let_def cur)
  have jp1: "Fresh (content g) (fst (cache_policy_handler req s))"
    and jp2: "getHeader (response_of (fst (cache_policy_handler req s))) ''ETag'' =
      Some (sha1_hex (content g))"
    using assms(5,6,8) by (simp_all add: cache_policy_handler_eq Let_def cur toLowerCase_names)
  have jp3: "\<forall>req'. headers req' ''if-none-match'' = Some (sha1_hex (content g)) \<longrightarrow>
      Unchanged (fst (cache_policy_handler req' s'))"
    using assms(5,6) by (simp add: cache_policy_handler_eq Let_def cur)
  from js1 js2 js3 jp1 jp2 jp3 show ?thesis by blast
qed

theorem validator_round_trip_witness:
  "Fresh (content ex_js) (fst (test_js_handler no_headers ex_fs)) \<and>
   getHeader (response_of (fst (test_js_handler no_headers ex_fs))) ''Last-Modified'' =
     Some ''Wed, 11 May 2022 10:48:50 GMT'' \<and>
   Unchanged (fst (test_js_handler
     \<lparr>headers = [''if-modified-since'' \<mapsto> ''Wed, 11 May 2022 10:48:50 GMT'']\<rparr> ex_fs)) \<and>
   Fresh (content ex_jpeg) (fst (cache_policy_handler no_headers ex_fs)) \<and>
   (case getHeader (response_of (fst (cache_policy_handler no_headers ex_fs))) ''ETag'' of
      None \<Rightarrow> False
    | Some v \<Rightarrow> Unchanged (fst (cache_policy_handler \<lparr>headers = [''if-none-match'' \<mapsto> v]\<rparr> ex_fs)))"
proof -
  have h: "disk_at ex_fs = (\<lambda>k. ex_disk)"
    by (simp add: ex_fs_def)
  have lm: "getHeader (response_of (fst (test_js_handler no_headers ex_fs))) ''Last-Modified'' =
      Some ''Wed, 11 May 2022 10:48:50 GMT''"
    by (simp add: test_js_handler_eq Let_def ex_fs_simps toLowerCase_names toUTCString_example)
  from validator_round_trip [OF h h, of ex_js ex_jpeg no_headers] lm
  show ?thesis
    by (auto simp: ex_fs_simps)
qed

text \<open>
  C8. The digest that \<open>getFileHash\<close> resolves with is a function of the bytes of the
  file alone: two files with the same bytes give the same digest, whatever their names,
  their time stamps, the accesses made before and the chunks in which the stream
  delivers the bytes. It is a string of 40 hexadecimal digits.
\<close>

theorem digest_determinism:
  assumes "current_disk s (path_resolve p) = Some f" and "fault f = None"
    and "current_disk s' (path_resolve p') = Some f'" and "fault f' = None"
    and "content f = content f'"
  shows "fst (getFileHash p s) = Inr (sha1_hex (content f)) \<and>
         fst (getFileHash p' s') = fst (getFileHash p s) \<and>
         (\<forall>cs. concat cs = content f \<longrightarrow>
            getFileHash_listeners createHash (emit cs End) = Inr (sha1_hex (content f))) \<and>
         length (sha1_hex (content f)) = 40 \<and>
         set (sha1_hex (content f)) \<subseteq> hex_alphabet"
  using assms
  by (simp add: getFileHash_eq listeners_emit_End createHash_def length_sha1_hex set_sha1_hex)

theorem digest_determinism_witness:
  "fst (getFileHash ''./assets/cache_policy.jpeg'' ex_fs) = Inr (sha1_hex [0xFF, 0xD8, 0xFF, 0xE0]) \<and>
   fst (getFileHash ''assets/copy.jpeg''
      \<lparr>disk_at = (\<lambda>k. [''assets/copy.jpeg'' \<mapsto> ex_jpeg\<lparr>ctimeMs := 0, mtimeMs := 7\<rparr>]),
       accesses = [Stat ''assets/copy.jpeg'']\<rparr>) =
     fst (getFileHash ''./assets/cache_policy.jpeg'' ex_fs) \<and>
   getFileHash_listeners createHash (Data [0xFF] (Data [0xD8, 0xFF] (Data [0xE0] End))) =
     Inr (sha1_hex [0xFF, 0xD8, 0xFF, 0xE0]) \<and>
   length (sha1_hex [0xFF, 0xD8, 0xFF, 0xE0]) = 40"
proof -
  let ?s' = "\<lparr>disk_at = (\<lambda>k. [''assets/copy.jpeg'' \<mapsto> ex_jpeg\<lparr>ctimeMs := 0, mtimeMs := 7\<rparr>]),
       accesses = [Stat ''assets/copy.jpeg'']\<rparr>"
  have a: "current_disk ex_fs (path_resolve ''./assets/cache_policy.jpeg'') = Some ex_jpeg"
    "fault ex_jpeg = None"
    by (simp_all add: ex_fs_simps path_resolve_jpeg)
  have b: "current_disk ?s' (path_resolve ''assets/copy.jpeg'') =
      Some (ex_jpeg\<lparr>ctimeMs := 0, mtimeMs := 7\<rparr>)"
    "fault (ex_jpeg\<lparr>ctimeMs := 0, mtimeMs := 7\<rparr>) = None"
    "content ex_jpeg = content (ex_jpeg\<lparr>ctimeMs := 0, mtimeMs := 7\<rparr>)"
    by (simp_all add: current_disk_def path_resolve.simps ex_fs_simps)
  have c: "content ex_jpeg = [0xFF, 0xD8, 0xFF, 0xE0]"
    by (simp add: ex_jpeg_def)
  have e: "emit [[0xFF], [0xD8, 0xFF], [0xE0]] End =
      Data [0xFF] (Data [0xD8, 0xFF] (Data [0xE0] End))"
    by simp
  from digest_determinism [OF a b] c e show ?thesis
    by (auto simp: c dest!: spec [of _ "[[0xFF], [0xD8, 0xFF], [0xE0]]"])
qed

text \<open>
  C10. Every response that the route \<open>/cache_policy.jpeg\<close> ends, 304 included, carries
  both the digest as entity tag and \<open>Cache-Control: public, max-age=10\<close>.
\<close>

theorem hash_route_headers:
  "fst (cache_policy_handler req s) = Sent r \<longrightarrow>
     (\<exists>g. current_disk s ''assets/cache_policy.jpeg'' = Some g \<and>
          getHeader r ''ETag'' = Some (sha1_hex (content g))) \<and>
     getHeader r ''Cache-Control'' = Some ''public, max-age=10''"
  using cache_policy_Sent [of req s r] by blast

theorem hash_route_headers_witness:
  "Unchanged (fst (cache_policy_handler
      \<lparr>headers = [''if-none-match'' \<mapsto> sha1_hex (content ex_jpeg)]\<rparr> ex_fs)) \<and>
   getHeader (response_of (fst (cache_policy_handler
      \<lparr>headers = [''if-none-match'' \<mapsto> sha1_hex (content ex_jpeg)]\<rparr> ex_fs))) ''ETag'' =
     Some (sha1_hex (content ex_jpeg)) \<and>
   getHeader (response_of (fst (cache_policy_handler
      \<lparr>headers = [''if-none-match'' \<mapsto> sha1_hex (content ex_jpeg)]\<rparr> ex_fs)))
      ''Cache-Control'' = Some ''public, max-age=10''"
proof -
  let ?req = "\<lparr>headers = [''if-none-match'' \<mapsto> sha1_hex (content ex_jpeg)]\<rparr>"
  let ?r = "response_of (fst (cache_policy_handler ?req ex_fs))"
  have s: "fst (cache_policy_handler ?req ex_fs) = Sent ?r"
    and u: "Unchanged (fst (cache_policy_handler ?req ex_fs))"
    by (simp_all add: cache_policy_handler_eq Let_def ex_fs_simps)
  from hash_route_headers [of ?req ex_fs ?r] s u show ?thesis
    by (auto simp: ex_fs_simps)
qed

lemma js_fs_simps:
  "accesses (js_fs f) = []"
  "current_disk (js_fs f) ''assets/test.js'' = Some f"
  "disk_at (js_fs f) k ''assets/test.js'' = Some f"
  by (simp_all add: js_fs_def current_disk_def)

lemma toUTCString_example_later:
  "toUTCString 1652266190000 = ''Wed, 11 May 2022 10:49:50 GMT''"
  apply (simp add: toUTCString_def date_defs)
  apply (simp add: zero_padded_def weekday_names_def month_names_def)
  apply (simp add: decimal.simps)
  apply (simp add: dec_digit_def)
  done

lemma toUTCString_example_same_second:
  "toUTCString 1652266130900 = ''Wed, 11 May 2022 10:48:50 GMT''"
  using toUTCString_seconds [of 1652266130900 1652266130000]
  by (simp add: toUTCString_example)

text \<open>
  C9 as stated fails in its second half. \<open>Last-Modified\<close> is the \<open>toUTCString\<close> form of
  \<open>ctime\<close>, which has no milliseconds: when \<open>chmod\<close> moves \<open>ctime\<close> by 900 ms within one
  second, the validator value stays the same and a request that carries it is answered
  304.
\<close>

theorem metadata_change_same_second_counterexample:
  "ctimeMs (ex_js\<lparr>ctimeMs := 1652266130900\<rparr>) \<noteq> ctimeMs ex_js \<and>
   getHeader (response_of (fst (test_js_handler no_headers (js_fs ex_js)))) ''Last-Modified'' =
     Some ''Wed, 11 May 2022 10:48:50 GMT'' \<and>
   getHeader (response_of (fst (test_js_handler
       \<lparr>headers = [''if-modified-since'' \<mapsto> ''Wed, 11 May 2022 10:48:50 GMT'']\<rparr>
       (js_fs (ex_js\<lparr>ctimeMs := 1652266130900\<rparr>))))) ''Last-Modified'' =
     Some ''Wed, 11 May 2022 10:48:50 GMT'' \<and>
   Unchanged (fst (test_js_handler
       \<lparr>headers = [''if-modified-since'' \<mapsto> ''Wed, 11 May 2022 10:48:50 GMT'']\<rparr>
       (js_fs (ex_js\<lparr>ctimeMs := 1652266130900\<rparr>))))"
  by (simp add: test_js_handler_eq Let_def js_fs_simps ex_fs_simps toLowerCase_names
      toUTCString_example toUTCString_example_same_second)

text \<open>
  C9, amended. The route \<open>/test.js\<close> takes \<open>Last-Modified\<close> from \<open>ctime\<close> in its
  \<open>toUTCString\<close> form; \<open>mtime\<close> plays no part. A change of the metadata alone (the bytes
  and \<open>mtime\<close> as before) that moves \<open>ctime\<close> into another second changes the validator
  value, and a request that carries the old value is answered 200 with the unchanged
  bytes; a change within the same second leaves the value as it is, and the request is
  answered 304.
\<close>

theorem last_modified_from_ctime:
  assumes "fault f = None"
    and "\<bar>ctimeMs f\<bar> \<le> 8640000000000000" and "\<bar>c'\<bar> \<le> 8640000000000000"
    and "headers req ''if-modified-since'' = Some (toUTCString (ctimeMs f))"
  shows "getHeader (response_of (fst (test_js_handler req' (js_fs f)))) ''Last-Modified'' =
           Some (toUTCString (ctimeMs f)) \<and>
         fst (test_js_handler req' (js_fs (f\<lparr>mtimeMs := m\<rparr>))) =
           fst (test_js_handler req' (js_fs f)) \<and>
         (c' div 1000 \<noteq> ctimeMs f div 1000 \<longrightarrow>
            toUTCString c' \<noteq> toUTCString (ctimeMs f) \<and>
            Fresh (content f) (fst (test_js_handler req (js_fs (f\<lparr>ctimeMs := c'\<rparr>)))) \<and>
            getHeader (response_of (fst (test_js_handler req (js_fs (f\<lparr>ctimeMs := c'\<rparr>)))))
              ''Last-Modified'' = Some (toUTCString c')) \<and>
         (c' div 1000 = ctimeMs f div 1000 \<longrightarrow>
            Unchanged (fst (test_js_handler req (js_fs (f\<lparr>ctimeMs := c'\<rparr>)))))"
proof -
  have iff: "toUTCString c' = toUTCString (ctimeMs f) \<longleftrightarrow> c' div 1000 = ctimeMs f div 1000"
    using assms(3,2) by (rule toUTCString_eq_iff)
  have a: "getHeader (response_of (fst (test_js_handler req' (js_fs f)))) ''Last-Modified'' =
      Some (toUTCString (ctimeMs f))"
    using assms(1) by (simp add: test_js_handler_eq Let_def js_fs_simps toLowerCase_names)
  have b: "fst (test_js_handler req' (js_fs (f\<lparr>mtimeMs := m\<rparr>))) =
      fst (test_js_handler req' (js_fs f))"
    using assms(1) by (simp add: test_js_handler_eq Let_def js_fs_simps)
  have c: "c' div 1000 \<noteq> ctimeMs f div 1000 \<longrightarrow>
      toUTCString c' \<noteq> toUTCString (ctimeMs f) \<and>
      Fresh (content f) (fst (test_js_handler req (js_fs (f\<lparr>ctimeMs := c'\<rparr>)))) \<and>
      getHeader (response_of (fst (test_js_handler req (js_fs (f\<lparr>ctimeMs := c'\<rparr>)))))
        ''Last-Modified'' = Some (toUTCString c')"
    using assms(1,4) iff
    by (auto simp: test_js_handler_eq Let_def js_fs_simps toLowerCase_names)
  have d: "c' div 1000 = ctimeMs f div 1000 \<longrightarrow>
      Unchanged (fst (test_js_handler req (js_fs (f\<lparr>ctimeMs := c'\<rparr>))))"
    using assms(4) iff
    by (auto simp: test_js_handler_eq Let_def js_fs_simps)
  from a b c d show ?thesis by blast
qed

theorem last_modified_from_ctime_witness:
  "getHeader (response_of (fst (test_js_handler no_headers (js_fs ex_js)))) ''Last-Modified'' =
     Some ''Wed, 11 May 2022 10:48:50 GMT'' \<and>
   fst (test_js_handler no_headers (js_fs (ex_js\<lparr>mtimeMs := 0\<rparr>))) =
     fst (test_js_handler no_headers (js_fs ex_js)) \<and>
   Fresh (content ex_js) (fst (test_js_handler
     \<lparr>headers = [''if-modified-since'' \<mapsto> ''Wed, 11 May 2022 10:48:50 GMT'']\<rparr>
     (js_fs (ex_js\<lparr>ctimeMs := 1652266190000\<rparr>)))) \<and>
   getHeader (response_of (fst (test_js_handler
     \<lparr>headers = [''if-modified-since'' \<mapsto> ''Wed, 11 May 2022 10:48:50 GMT'']\<rparr>
     (js_fs (ex_js\<lparr>ctimeMs := 1652266190000\<rparr>))))) ''Last-Modified'' =
     Some ''Wed, 11 May 2022 10:49:50 GMT'' \<and>
   Unchanged (fst (test_js_handler
     \<lparr>headers = [''if-modified-since'' \<mapsto> ''Wed, 11 May 2022 10:48:50 GMT'']\<rparr>
     (js_fs (ex_js\<lparr>ctimeMs := 1652266130900\<rparr>))))"
proof -
  let ?req = "\<lparr>headers = [''if-modified-since'' \<mapsto> ''Wed, 11 May 2022 10:48:50 GMT'']\<rparr>"
  have f: "fault ex_js = None" "\<bar>ctimeMs ex_js\<bar> \<le> 8640000000000000"
    and h: "headers ?req ''if-modified-since'' = Some (toUTCString (ctimeMs ex_js))"
    by (simp_all add: ex_fs_simps toUTCString_example)
  have later: "\<bar>1652266190000 :: int\<bar> \<le> 8640000000000000"
    and same: "\<bar>1652266130900 :: int\<bar> \<le> 8640000000000000"
    by simp_all
  from last_modified_from_ctime [OF f later h, of no_headers 0]
    last_modified_from_ctime [OF f same h, of no_headers 0]
  show ?thesis
    by (simp add: ex_fs_simps toUTCString_example toUTCString_example_later)
qed

end
